theory Spec2Isabelle
  imports Complex_Main
begin

section \<open>Values, strings and responses\<close>

text \<open>
  The server of \<^verbatim>\<open>src/backend/server.js\<close> is an Express application over
  Mongoose models. A request handler is modelled as a function from the request and the
  store to a response and the new store. ObjectIds are natural numbers, dates are
  milliseconds since the epoch, JSON numbers that are not counts are rationals. Request
  fields are modelled after JSON parsing and with the type their schema path has: an
  absent field is \<open>None\<close>; \<^verbatim>\<open>null\<close> values, values of another
  JSON kind and malformed ObjectIds are outside the model. Strings are byte strings;
  \<^verbatim>\<open>trim\<close> and \<^verbatim>\<open>toLowerCase\<close> are modelled on ASCII.
\<close>

type_synonym oid = nat
type_synonym date = int

datatype json =
    JNull
  | JBool bool
  | JNum rat
  | JStr string
  | JId oid
  | JDate date
  | JArr "json list"
  | JObj "(string \<times> json) list"

definition keys :: "json \<Rightarrow> string list" where
  "keys j = (case j of JObj kvs \<Rightarrow> map fst kvs | _ \<Rightarrow> [])"

definition field :: "string \<Rightarrow> json \<Rightarrow> json option" where
  "field k j = (case j of JObj kvs \<Rightarrow> map_of kvs k | _ \<Rightarrow> None)"

text \<open>JavaScript truthiness of a value that is either \<^verbatim>\<open>undefined\<close> or a string.\<close>

definition truthy :: "string option \<Rightarrow> bool" where
  "truthy v = (case v of None \<Rightarrow> False | Some s \<Rightarrow> s \<noteq> [])"

text \<open>\<^verbatim>\<open>String.prototype.split\<close> with a one-character separator.\<close>

fun split_on :: "char \<Rightarrow> string \<Rightarrow> string list" where
  "split_on c [] = [[]]"
| "split_on c (x # xs) =
     (if x = c then [] # split_on c xs
      else (case split_on c xs of [] \<Rightarrow> [[x]] | w # ws \<Rightarrow> (x # w) # ws))"

text \<open>Indexing an array: \<^verbatim>\<open>undefined\<close> out of range.\<close>

definition index :: "'a list \<Rightarrow> nat \<Rightarrow> 'a option" where
  "index xs i = (if i < length xs then Some (xs ! i) else None)"

definition is_space :: "char \<Rightarrow> bool" where
  "is_space c = (c \<in> set [CHR '' '', CHR 0x09, CHR 0x0A, CHR 0x0B, CHR 0x0C, CHR 0x0D])"

definition trim :: "string \<Rightarrow> string" where
  "trim s = rev (dropWhile is_space (rev (dropWhile is_space s)))"

definition lower_char :: "char \<Rightarrow> char" where
  "lower_char c =
     (let n = (of_char c :: nat) in if 65 \<le> n \<and> n \<le> 90 then char_of (n + 32) else c)"

definition toLowerCase :: "string \<Rightarrow> string" where
  "toLowerCase s = map lower_char s"

text \<open>The decimal numeral of a number, as \<^verbatim>\<open>String(n)\<close> writes an integer.\<close>

fun show_nat :: "nat \<Rightarrow> string" where
  "show_nat n =
     (if n < 10 then [''0123456789'' ! n] else show_nat (n div 10) @ [''0123456789'' ! (n mod 10)])"

declare show_nat.simps [simp del]

definition show_int :: "int \<Rightarrow> string" where
  "show_int i = (if i < 0 then CHR ''-'' # show_nat (nat (- i)) else show_nat (nat i))"

section \<open>Schemas\<close>

record user =
  u_id :: oid
  username :: string
  email :: string
  password :: string
  firstName :: string
  lastName :: string
  role :: string
  avatar :: string
  isActive :: bool
  lastLogin :: "date option"
  u_createdAt :: date
  u_updatedAt :: date

record attachment =
  filename :: "string option"
  url :: "string option"
  uploadedAt :: date

record comment =
  c_user :: "oid option"
  c_text :: string
  c_createdAt :: date

record task =
  t_id :: oid
  title :: string
  description :: string
  status :: string
  priority :: string
  assignedTo :: "oid option"
  createdBy :: oid
  project :: string
  tags :: "string list"
  dueDate :: "date option"
  estimatedHours :: "rat option"
  actualHours :: rat
  attachments :: "attachment list"
  comments :: "comment list"
  createdAt :: date
  updatedAt :: date

record project_doc =
  p_id :: oid
  p_name :: string
  p_description :: string
  p_status :: string
  p_owner :: oid
  p_team :: "oid list"
  p_startDate :: date
  p_endDate :: "date option"
  p_budget :: "rat option"
  p_progress :: rat
  p_createdAt :: date
  p_updatedAt :: date

record store =
  users :: "user list"
  tasks :: "task list"
  projects :: "project_doc list"

section \<open>Libraries and the environment of a request\<close>

text \<open>The payload of a token: what \<^verbatim>\<open>jwt.verify\<close> hands to its callback.\<close>

record claims =
  userId :: "oid option"
  c_username :: "string option"

datatype verr = Required | Enum string | Min rat | MinLength nat

text \<open>
  The functions of \<^verbatim>\<open>bcryptjs\<close>, \<^verbatim>\<open>jsonwebtoken\<close> and Mongoose's
  message templates are not part of the repository: they are parameters.
  \<open>bcrypt_hash data rounds salt\<close> is \<^verbatim>\<open>bcrypt.hash(data, rounds)\<close> when the
  library draws \<open>salt\<close>; \<open>jwt_sign payload secret seconds now\<close> is
  \<^verbatim>\<open>jwt.sign(payload, secret, {expiresIn})\<close>; \<open>jwt_verify token secret now\<close>
  is \<open>None\<close> when \<^verbatim>\<open>jwt.verify\<close> reports an error.
\<close>

record libs =
  bcrypt_hash :: "string \<Rightarrow> nat \<Rightarrow> string \<Rightarrow> string"
  bcrypt_compare :: "string \<Rightarrow> string \<Rightarrow> bool"
  jwt_sign :: "claims \<Rightarrow> string \<Rightarrow> nat \<Rightarrow> date \<Rightarrow> string"
  jwt_verify :: "string \<Rightarrow> string \<Rightarrow> date \<Rightarrow> claims option"
  validator_message :: "string \<Rightarrow> verr \<Rightarrow> string"

text \<open>
  What a request reads from outside: the clock, the ObjectId a new document receives,
  the salt drawn by the hasher, and \<^verbatim>\<open>JWT_SECRET\<close>.
\<close>

record env =
  now :: date
  fresh_id :: oid
  salt :: string
  JWT_SECRET :: string

datatype error =
    ValidationError "(string \<times> verr) list"
  | MongoError int "string list"
  | TypeError

section \<open>Requests, responses, middleware\<close>

record 'b request =
  authorization :: "string option"
  user :: "claims option"
  body :: 'b

record user_ref =
  r_id :: oid
  r_fields :: "(string \<times> string) list"

record ptask =
  doc :: task
  pop_assignedTo :: "user_ref option"
  pop_createdBy :: "user_ref option"
  pop_comment_users :: "user_ref option list option"

datatype payload =
    Json json
  | TaskDoc ptask
  | TaskPage "ptask list" json json nat
  | Dashboard json json "(task \<times> user_ref option) list"

record response =
  code :: nat
  payload :: payload

type_synonym 'b handler = "'b request \<Rightarrow> store \<Rightarrow> response \<times> store"

definition respond :: "nat \<Rightarrow> payload \<Rightarrow> response" where
  "respond c p = \<lparr>code = c, payload = p\<rparr>"

definition error_json :: "string \<Rightarrow> payload" where
  "error_json msg = Json (JObj [(''error'', JStr msg)])"

text \<open>
  \<^verbatim>\<open>authHeader && authHeader.split(' ')[1]\<close>: \<open>None\<close> is
  \<^verbatim>\<open>undefined\<close>.
\<close>

definition header_token :: "string option \<Rightarrow> string option" where
  "header_token authHeader =
     (case authHeader of
        None \<Rightarrow> None
      | Some h \<Rightarrow> if h = [] then Some [] else index (split_on CHR '' '' h) 1)"

definition authenticateToken ::
  "libs \<Rightarrow> env \<Rightarrow> 'b handler \<Rightarrow> 'b handler" where
  "authenticateToken lib e next req st =
     (let token = header_token (authorization req) in
      if \<not> truthy token then (respond 401 (error_json ''Access token required''), st)
      else
        (case token of
           None \<Rightarrow> (respond 401 (error_json ''Access token required''), st)
         | Some t \<Rightarrow>
            (case jwt_verify lib t (JWT_SECRET e) (now e) of
               None \<Rightarrow> (respond 403 (error_json ''Invalid or expired token''), st)
             | Some u \<Rightarrow> next (req\<lparr>user := Some u\<rparr>) st)))"

section \<open>Collections and validators\<close>

text \<open>
  A collection is the list of its documents in natural order; \<^verbatim>\<open>findOne\<close> is
  the first match (\<^const>\<open>find\<close>). Query values pass through the setters of
  their schema path, as the values of a document do.
\<close>

fun update_first :: "('a \<Rightarrow> bool) \<Rightarrow> ('a \<Rightarrow> 'a) \<Rightarrow> 'a list \<Rightarrow> 'a list" where
  "update_first P f [] = []"
| "update_first P f (x # xs) = (if P x then f x # xs else x # update_first P f xs)"

definition check_required :: "string \<Rightarrow> string \<Rightarrow> (string \<times> verr) list" where
  "check_required path v = (if v = [] then [(path, Required)] else [])"

definition check_enum :: "string \<Rightarrow> string list \<Rightarrow> string \<Rightarrow> (string \<times> verr) list" where
  "check_enum path allowed v = (if v \<in> set allowed then [] else [(path, Enum v)])"

definition check_min :: "string \<Rightarrow> rat \<Rightarrow> rat \<Rightarrow> (string \<times> verr) list" where
  "check_min path m v = (if v < m then [(path, Min v)] else [])"

section \<open>The user collection\<close>

definition user_roles :: "string list" where
  "user_roles = [''user'', ''admin'', ''manager'']"

definition check_password :: "string \<Rightarrow> (string \<times> verr) list" where
  "check_password v =
     (if v = [] then [(''password'', Required)]
      else if length v < 6 then [(''password'', MinLength 6)] else [])"

definition validate_user :: "user \<Rightarrow> (string \<times> verr) list" where
  "validate_user u =
     check_required ''username'' (username u) @
     check_required ''email'' (email u) @
     check_password (password u) @
     check_required ''firstName'' (firstName u) @
     check_required ''lastName'' (lastName u) @
     check_enum ''role'' user_roles (role u)"

text \<open>
  \<^verbatim>\<open>new User({username, email, password, firstName, lastName})\<close>: setters
  (\<^verbatim>\<open>trim\<close>, \<^verbatim>\<open>lowercase\<close>) and defaults of \<^verbatim>\<open>userSchema\<close>.
\<close>

definition new_user :: "env \<Rightarrow> string \<Rightarrow> string \<Rightarrow> string \<Rightarrow> string \<Rightarrow> string \<Rightarrow> user" where
  "new_user e un em pw fnm lnm =
     \<lparr>u_id = fresh_id e, username = trim un, email = toLowerCase em, password = pw,
      firstName = trim fnm, lastName = trim lnm, role = ''user'', avatar = [],
      isActive = True, lastLogin = None, u_createdAt = now e, u_updatedAt = now e\<rparr>"

text \<open>
  \<^verbatim>\<open>user.save()\<close> of a new document: validation, then the insert, which the
  unique indexes on \<^verbatim>\<open>_id\<close>, \<^verbatim>\<open>username\<close> and \<^verbatim>\<open>email\<close>
  reject with code 11000.
\<close>

definition save_new_user :: "user \<Rightarrow> store \<Rightarrow> error + store" where
  "save_new_user u st =
     (if validate_user u \<noteq> [] then Inl (ValidationError (validate_user u))
      else if \<exists>v \<in> set (users st). u_id v = u_id u then Inl (MongoError 11000 [''_id''])
      else if \<exists>v \<in> set (users st). username v = username u
        then Inl (MongoError 11000 [''username''])
      else if \<exists>v \<in> set (users st). email v = email u then Inl (MongoError 11000 [''email''])
      else Inr (st\<lparr>users := users st @ [u]\<rparr>))"

text \<open>
  \<^verbatim>\<open>user.save()\<close> of a loaded document: the paths that were loaded are
  validated again, then the changed document is written.
\<close>

definition save_user :: "user \<Rightarrow> store \<Rightarrow> error + store" where
  "save_user u st =
     (if validate_user u \<noteq> [] then Inl (ValidationError (validate_user u))
      else Inr (st\<lparr>users := update_first (\<lambda>v. u_id v = u_id u) (\<lambda>_. u) (users st)\<rparr>))"

section \<open>Authentication routes\<close>

record reg_body =
  rb_username :: "string option"
  rb_email :: "string option"
  rb_password :: "string option"
  rb_firstName :: "string option"
  rb_lastName :: "string option"

record login_body =
  lb_username :: "string option"
  lb_password :: "string option"

definition issue_token :: "libs \<Rightarrow> env \<Rightarrow> user \<Rightarrow> string" where
  "issue_token lib e u =
     jwt_sign lib \<lparr>userId = Some (u_id u), c_username = Some (username u)\<rparr>
       (JWT_SECRET e) (24 * 3600) (now e)"

definition register_user_json :: "user \<Rightarrow> json" where
  "register_user_json u =
     JObj [(''id'', JId (u_id u)), (''username'', JStr (username u)),
           (''email'', JStr (email u)), (''firstName'', JStr (firstName u)),
           (''lastName'', JStr (lastName u)), (''role'', JStr (role u))]"

definition register :: "libs \<Rightarrow> env \<Rightarrow> reg_body handler" where
  "register lib e req st =
     (let b = body req in
      if \<not> truthy (rb_username b) \<or> \<not> truthy (rb_email b) \<or> \<not> truthy (rb_password b) \<or>
         \<not> truthy (rb_firstName b) \<or> \<not> truthy (rb_lastName b)
      then (respond 400 (error_json ''All fields are required''), st)
      else
        (case (rb_username b, rb_email b, rb_password b, rb_firstName b, rb_lastName b) of
           (Some un, Some em, Some pw, Some fnm, Some lnm) \<Rightarrow>
             if length pw < 6
             then (respond 400 (error_json ''Password must be at least 6 characters''), st)
             else
               (case find (\<lambda>u. email u = toLowerCase em \<or> username u = trim un) (users st) of
                  Some existingUser \<Rightarrow> (respond 400 (error_json ''User already exists''), st)
                | None \<Rightarrow>
                   (let hashedPassword = bcrypt_hash lib pw 12 (salt e);
                        u = new_user e un em hashedPassword fnm lnm
                    in case save_new_user u st of
                         Inl err \<Rightarrow> (respond 500 (error_json ''Registration failed''), st)
                       | Inr st' \<Rightarrow>
                          (respond 201
                             (Json (JObj [(''message'', JStr ''User created successfully''),
                                          (''token'', JStr (issue_token lib e u)),
                                          (''user'', register_user_json u)])),
                           st')))
         | _ \<Rightarrow> (respond 400 (error_json ''All fields are required''), st)))"

definition login_user_json :: "user \<Rightarrow> json" where
  "login_user_json u =
     JObj [(''id'', JId (u_id u)), (''username'', JStr (username u)),
           (''email'', JStr (email u)), (''firstName'', JStr (firstName u)),
           (''lastName'', JStr (lastName u)), (''role'', JStr (role u)),
           (''lastLogin'', (case lastLogin u of None \<Rightarrow> JNull | Some d \<Rightarrow> JDate d))]"

definition login :: "libs \<Rightarrow> env \<Rightarrow> login_body handler" where
  "login lib e req st =
     (let b = body req in
      if \<not> truthy (lb_username b) \<or> \<not> truthy (lb_password b)
      then (respond 400 (error_json ''Username and password required''), st)
      else
        (case (lb_username b, lb_password b) of
           (Some un, Some pw) \<Rightarrow>
             (case find (\<lambda>u. username u = trim un \<or> email u = toLowerCase un) (users st) of
                None \<Rightarrow> (respond 401 (error_json ''Invalid credentials''), st)
              | Some u \<Rightarrow>
                 if \<not> isActive u then (respond 401 (error_json ''Invalid credentials''), st)
                 else if \<not> bcrypt_compare lib pw (password u)
                 then (respond 401 (error_json ''Invalid credentials''), st)
                 else
                   (let u' = u\<lparr>lastLogin := Some (now e)\<rparr>
                    in case save_user u' st of
                         Inl err \<Rightarrow> (respond 500 (error_json ''Login failed''), st)
                       | Inr st' \<Rightarrow>
                          (respond 200
                             (Json (JObj [(''message'', JStr ''Login successful''),
                                          (''token'', JStr (issue_token lib e u')),
                                          (''user'', login_user_json u')])),
                           st')))
         | _ \<Rightarrow> (respond 400 (error_json ''Username and password required''), st)))"

section \<open>The task collection\<close>

text \<open>
  The body of a task request, after JSON parsing: the paths of \<^verbatim>\<open>taskSchema\<close>
  a client sets, each absent or of its schema type. The embedded arrays
  (\<^verbatim>\<open>attachments\<close>, \<^verbatim>\<open>comments\<close>), keys outside the schema (dropped by
  Mongoose's strict mode) and update operators are not part of a modelled body.
\<close>

record task_body =
  b_title :: "string option"
  b_description :: "string option"
  b_status :: "string option"
  b_priority :: "string option"
  b_assignedTo :: "oid option"
  b_createdBy :: "oid option"
  b_project :: "string option"
  b_tags :: "string list option"
  b_dueDate :: "date option"
  b_estimatedHours :: "rat option"
  b_actualHours :: "rat option"
  b_createdAt :: "date option"
  b_updatedAt :: "date option"

definition task_statuses :: "string list" where
  "task_statuses = [''todo'', ''in-progress'', ''review'', ''completed'']"

definition task_priorities :: "string list" where
  "task_priorities = [''low'', ''medium'', ''high'', ''urgent'']"

text \<open>The setters of \<^verbatim>\<open>taskSchema\<close>: \<^verbatim>\<open>trim\<close> on the title and on each tag.\<close>

definition cast_task_body :: "task_body \<Rightarrow> task_body" where
  "cast_task_body b =
     b\<lparr>b_title := map_option trim (b_title b), b_tags := map_option (map trim) (b_tags b)\<rparr>"

text \<open>
  The validators of each path of \<^verbatim>\<open>taskSchema\<close>, run on a value that is set.
  Document validation and update validation both go through them.
\<close>

definition when_set :: "('a \<Rightarrow> (string \<times> verr) list) \<Rightarrow> 'a option \<Rightarrow> (string \<times> verr) list" where
  "when_set check v = (case v of None \<Rightarrow> [] | Some x \<Rightarrow> check x)"

definition set_path_errors :: "task_body \<Rightarrow> (string \<times> verr) list" where
  "set_path_errors b =
     when_set (check_required ''title'') (b_title b) @
     when_set (check_required ''description'') (b_description b) @
     when_set (check_enum ''status'' task_statuses) (b_status b) @
     when_set (check_enum ''priority'' task_priorities) (b_priority b) @
     when_set (check_required ''project'') (b_project b) @
     when_set (check_min ''estimatedHours'' 0) (b_estimatedHours b) @
     when_set (check_min ''actualHours'' 0) (b_actualHours b)"

definition missing :: "string \<Rightarrow> 'a option \<Rightarrow> (string \<times> verr) list" where
  "missing path v = (case v of None \<Rightarrow> [(path, Required)] | Some x \<Rightarrow> [])"

text \<open>
  The required paths of \<^verbatim>\<open>taskSchema\<close> that a new document leaves unset, in the
  order in which Mongoose reports them.
\<close>

definition missing_path_errors :: "task_body \<Rightarrow> (string \<times> verr) list" where
  "missing_path_errors b =
     missing ''project'' (b_project b) @ missing ''createdBy'' (b_createdBy b) @
     missing ''description'' (b_description b) @ missing ''title'' (b_title b)"

definition pick :: "'a option \<Rightarrow> 'a \<Rightarrow> 'a" where
  "pick v d = (case v of None \<Rightarrow> d | Some x \<Rightarrow> x)"

definition pick_opt :: "'a option \<Rightarrow> 'a option \<Rightarrow> 'a option" where
  "pick_opt v d = (case v of None \<Rightarrow> d | Some x \<Rightarrow> Some x)"

text \<open>
  \<^verbatim>\<open>new Task(taskData)\<close> followed by the validation of \<^verbatim>\<open>task.save()\<close>:
  setters, defaults, then the required, enum and min validators.
\<close>

definition new_task :: "env \<Rightarrow> task_body \<Rightarrow> error + task" where
  "new_task e taskData =
     (let b = cast_task_body taskData;
          errs = missing_path_errors b @ set_path_errors b
      in if errs \<noteq> [] then Inl (ValidationError errs)
         else
           (case (b_title b, b_description b, b_createdBy b, b_project b) of
              (Some ti, Some de, Some cr, Some pr) \<Rightarrow>
                Inr \<lparr>t_id = fresh_id e, title = ti, description = de,
                     status = pick (b_status b) ''todo'',
                     priority = pick (b_priority b) ''medium'',
                     assignedTo = b_assignedTo b, createdBy = cr, project = pr,
                     tags = pick (b_tags b) [], dueDate = b_dueDate b,
                     estimatedHours = b_estimatedHours b,
                     actualHours = pick (b_actualHours b) 0,
                     attachments = [], comments = [],
                     createdAt = pick (b_createdAt b) (now e),
                     updatedAt = pick (b_updatedAt b) (now e)\<rparr>
            | _ \<Rightarrow> Inl (ValidationError errs)))"

definition insert_task :: "task \<Rightarrow> store \<Rightarrow> error + store" where
  "insert_task t st =
     (if \<exists>x \<in> set (tasks st). t_id x = t_id t then Inl (MongoError 11000 [''_id''])
      else Inr (st\<lparr>tasks := tasks st @ [t]\<rparr>))"

text \<open>
  \<^verbatim>\<open>findByIdAndUpdate(id, update, {new: true, runValidators: true})\<close>: the update
  is cast and validated on the paths it sets before the store is touched; then the
  first document with the id, if any, receives the set paths.
\<close>

definition apply_update :: "task_body \<Rightarrow> task \<Rightarrow> task" where
  "apply_update b t =
     t\<lparr>title := pick (b_title b) (title t),
       description := pick (b_description b) (description t),
       status := pick (b_status b) (status t),
       priority := pick (b_priority b) (priority t),
       assignedTo := pick_opt (b_assignedTo b) (assignedTo t),
       createdBy := pick (b_createdBy b) (createdBy t),
       project := pick (b_project b) (project t),
       tags := pick (b_tags b) (tags t),
       dueDate := pick_opt (b_dueDate b) (dueDate t),
       estimatedHours := pick_opt (b_estimatedHours b) (estimatedHours t),
       actualHours := pick (b_actualHours b) (actualHours t),
       createdAt := pick (b_createdAt b) (createdAt t),
       updatedAt := pick (b_updatedAt b) (updatedAt t)\<rparr>"

definition findByIdAndUpdate :: "oid \<Rightarrow> task_body \<Rightarrow> store \<Rightarrow> error + (task option \<times> store)" where
  "findByIdAndUpdate i update st =
     (let b = cast_task_body update; errs = set_path_errors b
      in if errs \<noteq> [] then Inl (ValidationError errs)
         else
           (case find (\<lambda>t. t_id t = i) (tasks st) of
              None \<Rightarrow> Inr (None, st)
            | Some t \<Rightarrow>
               Inr (Some (apply_update b t),
                    st\<lparr>tasks := update_first (\<lambda>t. t_id t = i) (apply_update b) (tasks st)\<rparr>)))"

text \<open>
  \<^verbatim>\<open>populate(path, select)\<close>: the reference is replaced by the selected fields of
  the user it names (with \<^verbatim>\<open>_id\<close>), or by \<^verbatim>\<open>null\<close> when there is none.
\<close>

definition user_field :: "string \<Rightarrow> user \<Rightarrow> string option" where
  "user_field f u =
     (if f = ''firstName'' then Some (firstName u)
      else if f = ''lastName'' then Some (lastName u)
      else if f = ''username'' then Some (username u)
      else if f = ''email'' then Some (email u)
      else if f = ''password'' then Some (password u)
      else if f = ''role'' then Some (role u)
      else if f = ''avatar'' then Some (avatar u)
      else None)"

definition select_fields :: "string list \<Rightarrow> user \<Rightarrow> user_ref" where
  "select_fields fs u =
     \<lparr>r_id = u_id u,
      r_fields = concat (map (\<lambda>f. case user_field f u of None \<Rightarrow> [] | Some v \<Rightarrow> [(f, v)]) fs)\<rparr>"

definition populate :: "user list \<Rightarrow> string list \<Rightarrow> oid option \<Rightarrow> user_ref option" where
  "populate us fs r =
     (case r of None \<Rightarrow> None
      | Some i \<Rightarrow> map_option (select_fields fs) (find (\<lambda>u. u_id u = i) us))"

definition name_fields :: "string list" where
  "name_fields = [''firstName'', ''lastName'', ''username'']"

definition populate_task :: "user list \<Rightarrow> bool \<Rightarrow> task \<Rightarrow> ptask" where
  "populate_task us with_comments t =
     \<lparr>doc = t,
      pop_assignedTo = populate us name_fields (assignedTo t),
      pop_createdBy = populate us name_fields (Some (createdBy t)),
      pop_comment_users =
        (if with_comments then Some (map (\<lambda>c. populate us name_fields (c_user c)) (comments t))
         else None)\<rparr>"

section \<open>Task routes\<close>

record task_query =
  q_status :: "string option"
  q_priority :: "string option"
  q_project :: "string option"
  q_assignedTo :: "oid option"
  q_page :: "int option"
  q_limit :: "int option"

record task_filter =
  f_status :: "string option"
  f_priority :: "string option"
  f_project :: "string option"
  f_assignedTo :: "oid option"

text \<open>
  \<^verbatim>\<open>page\<close> and \<^verbatim>\<open>limit\<close> arrive as strings, here the decimal numerals
  of integers: the fields hold the numbers JavaScript's arithmetic makes of them, and
  \<^const>\<open>show_int\<close> gives the string back. Absent, they default to the numbers 1 and
  10. Below, the empty query and the query \<^verbatim>\<open>status=completed&page=1&limit=10\<close>.
\<close>

definition no_query :: task_query where
  "no_query = \<lparr>q_status = None, q_priority = None, q_project = None, q_assignedTo = None,
                q_page = None, q_limit = None\<rparr>"

definition completed_page :: task_query where
  "completed_page = no_query\<lparr>q_status := Some ''completed'', q_page := Some 1, q_limit := Some 10\<rparr>"

definition build_filter :: "task_query \<Rightarrow> task_filter" where
  "build_filter q =
     \<lparr>f_status = (if truthy (q_status q) then q_status q else None),
      f_priority = (if truthy (q_priority q) then q_priority q else None),
      f_project = (if truthy (q_project q) then q_project q else None),
      f_assignedTo = q_assignedTo q\<rparr>"

definition matches :: "task_filter \<Rightarrow> task \<Rightarrow> bool" where
  "matches f t =
     ((case f_status f of None \<Rightarrow> True | Some s \<Rightarrow> status t = s) \<and>
      (case f_priority f of None \<Rightarrow> True | Some s \<Rightarrow> priority t = s) \<and>
      (case f_project f of None \<Rightarrow> True | Some s \<Rightarrow> project t = s) \<and>
      (case f_assignedTo f of None \<Rightarrow> True | Some a \<Rightarrow> assignedTo t = Some a))"

text \<open>
  \<^verbatim>\<open>Task.find(filter).sort({createdAt: -1}).limit(l).skip(s)\<close>: the store sorts,
  skips, then limits, whatever the order of the calls. It rejects a negative skip; a
  limit of 0 is no limit and a negative limit counts as its absolute value.
\<close>

definition newest_first :: "task list \<Rightarrow> task list" where
  "newest_first ts = sort_key (\<lambda>t. - createdAt t) ts"

definition apply_limit :: "int \<Rightarrow> 'a list \<Rightarrow> 'a list" where
  "apply_limit l xs = (if l = 0 then xs else take (nat \<bar>l\<bar>) xs)"

definition find_tasks :: "task_filter \<Rightarrow> int \<Rightarrow> int \<Rightarrow> task list \<Rightarrow> error + task list" where
  "find_tasks f l s ts =
     (if s < 0 then Inl (MongoError 2 [])
      else Inr (apply_limit l (drop (nat s) (newest_first (filter (matches f) ts)))))"

definition countDocuments :: "task_filter \<Rightarrow> task list \<Rightarrow> nat" where
  "countDocuments f ts = length (filter (matches f) ts)"

text \<open>
  \<^verbatim>\<open>Math.ceil(total / limit)\<close>, as JSON: a division by zero gives
  \<^verbatim>\<open>Infinity\<close> or \<^verbatim>\<open>NaN\<close>, which \<^verbatim>\<open>res.json\<close> writes as
  \<^verbatim>\<open>null\<close>. For counts below \<open>2^53\<close> the quotient of doubles has the
  ceiling of the exact quotient.
\<close>

definition total_pages :: "nat \<Rightarrow> int \<Rightarrow> json" where
  "total_pages n limit =
     (if limit = 0 then JNull
      else JNum (of_int \<lceil>(of_nat n :: rat) / of_int limit\<rceil>))"

text \<open>
  \<^verbatim>\<open>currentPage: page\<close> answers the value of the query as it came: the string of
  the query, or the default, the number 1.
\<close>

definition current_page :: "int option \<Rightarrow> json" where
  "current_page page = (case page of None \<Rightarrow> JNum 1 | Some p \<Rightarrow> JStr (show_int p))"

definition get_tasks :: "task_query handler" where
  "get_tasks req st =
     (let q = body req;
          page = pick (q_page q) 1;
          limit = pick (q_limit q) 10;
          f = build_filter q
      in case find_tasks f (limit * 1) ((page - 1) * limit) (tasks st) of
           Inl err \<Rightarrow> (respond 500 (error_json ''Failed to fetch tasks''), st)
         | Inr ts \<Rightarrow>
            (let n = countDocuments f (tasks st)
             in (respond 200
                   (TaskPage (map (populate_task (users st) True) ts)
                      (total_pages n limit) (current_page (q_page q)) n),
                 st)))"

definition create_task :: "env \<Rightarrow> task_body handler" where
  "create_task e req st =
     (case user req of
        None \<Rightarrow> (respond 500 (error_json ''Failed to create task''), st)
      | Some u \<Rightarrow>
         (let taskData = (body req)\<lparr>b_createdBy := userId u, b_updatedAt := Some (now e)\<rparr>
          in case new_task e taskData of
               Inl err \<Rightarrow> (respond 500 (error_json ''Failed to create task''), st)
             | Inr t \<Rightarrow>
                (case insert_task t st of
                   Inl err \<Rightarrow> (respond 500 (error_json ''Failed to create task''), st)
                 | Inr st' \<Rightarrow>
                    (case find (\<lambda>x. t_id x = t_id t) (tasks st') of
                       None \<Rightarrow> (respond 201 (Json JNull), st')
                     | Some populatedTask \<Rightarrow>
                        (respond 201 (TaskDoc (populate_task (users st') False populatedTask)),
                         st')))))"

definition update_task :: "env \<Rightarrow> oid \<Rightarrow> task_body handler" where
  "update_task e i req st =
     (case findByIdAndUpdate i ((body req)\<lparr>b_updatedAt := Some (now e)\<rparr>) st of
        Inl err \<Rightarrow> (respond 500 (error_json ''Failed to update task''), st)
      | Inr (None, st') \<Rightarrow> (respond 404 (error_json ''Task not found''), st')
      | Inr (Some t, st') \<Rightarrow> (respond 200 (TaskDoc (populate_task (users st') False t)), st'))"

section \<open>The error handler and the application\<close>

definition errorHandler :: "libs \<Rightarrow> error \<Rightarrow> response" where
  "errorHandler lib err =
     (case err of
        ValidationError errors \<Rightarrow>
          respond 400
            (Json (JObj [(''error'', JStr ''Validation Error''),
                         (''details'',
                          JArr (map (\<lambda>(path, k). JStr (validator_message lib path k)) errors))]))
      | MongoError c keyPattern \<Rightarrow>
          if c = 11000
          then respond 400
                 (Json (JObj ((''error'', JStr ''Duplicate entry'') #
                              (case keyPattern of [] \<Rightarrow> [] | k # _ \<Rightarrow> [(''field'', JStr k)]))))
          else respond 500 (error_json ''Internal server error'')
      | TypeError \<Rightarrow> respond 500 (error_json ''Internal server error''))"

text \<open>
  The routes as \<^verbatim>\<open>app.get\<close>, \<^verbatim>\<open>app.post\<close> and \<^verbatim>\<open>app.put\<close> register
  them. Every handler answers from its own \<^verbatim>\<open>catch\<close> block and none calls
  \<^verbatim>\<open>next(err)\<close>, so no route reaches \<^const>\<open>errorHandler\<close>.
\<close>

definition route_register :: "libs \<Rightarrow> env \<Rightarrow> reg_body handler" where
  "route_register lib e = register lib e"

definition route_login :: "libs \<Rightarrow> env \<Rightarrow> login_body handler" where
  "route_login lib e = login lib e"

definition route_get_tasks :: "libs \<Rightarrow> env \<Rightarrow> task_query handler" where
  "route_get_tasks lib e = authenticateToken lib e get_tasks"

definition route_post_tasks :: "libs \<Rightarrow> env \<Rightarrow> task_body handler" where
  "route_post_tasks lib e = authenticateToken lib e (create_task e)"

definition route_put_task :: "libs \<Rightarrow> env \<Rightarrow> oid \<Rightarrow> task_body handler" where
  "route_put_task lib e i = authenticateToken lib e (update_task e i)"

section \<open>Analytics\<close>

subsection \<open>Double-precision arithmetic on counts\<close>

text \<open>
  JavaScript numbers are IEEE 754 doubles, and \<^verbatim>\<open>completedTasks / totalTasks * 100\<close>
  rounds twice. A finite double that is not negative is a pair \<open>(m, e)\<close> standing for
  \<open>m * 2^e\<close>. The counts are below \<open>2^53\<close> and exact. Division and multiplication
  return the double nearest to the exact result, a tie going to the even significand;
  the significand of a result has 53 bits. The exponent range is not modelled: the
  values here lie between \<open>2^-53\<close> and 100.
\<close>

type_synonym double = "nat \<times> int"

definition dval :: "double \<Rightarrow> rat" where
  "dval x = of_nat (fst x) * 2 powi (snd x)"

text \<open>The number of binary digits of a natural number.\<close>

fun bits :: "nat \<Rightarrow> nat" where
  "bits n = (if n = 0 then 0 else Suc (bits (n div 2)))"

declare bits.simps [simp del]

text \<open>The integer nearest to \<open>n / d\<close>, the even one of two.\<close>

definition round_div :: "nat \<Rightarrow> nat \<Rightarrow> nat" where
  "round_div n d =
     (let q = n div d; r = n mod d
      in if 2 * r < d then q else if d < 2 * r then q + 1 else if even q then q else q + 1)"

text \<open>
  The double nearest to \<open>(a / b) * 2^k\<close>, for positive \<open>a\<close> and \<open>b\<close>: \<open>l\<close> is the
  integer with \<open>2^l \<le> a / b < 2^(l + 1)\<close>, found from the bit lengths, and the
  significand is \<open>a / b\<close> scaled into \<open>[2^52, 2^53)\<close> and rounded.
\<close>

definition nearest_double :: "nat \<Rightarrow> nat \<Rightarrow> int \<Rightarrow> double" where
  "nearest_double a b k =
     (let d = int (bits a) - int (bits b);
          l = (if (if 0 \<le> d then 2 ^ nat d * b \<le> a else b \<le> a * 2 ^ nat (- d)) then d else d - 1);
          s = l - 52;
          m = (if 0 \<le> s then round_div a (b * 2 ^ nat s) else round_div (a * 2 ^ nat (- s)) b)
      in (m, s + k))"

text \<open>\<^verbatim>\<open>c / t\<close> for counts with \<open>t > 0\<close>, and \<^verbatim>\<open>x * n\<close> for a count \<open>n\<close>.\<close>

definition fdiv :: "nat \<Rightarrow> nat \<Rightarrow> double" where
  "fdiv c t = (if c = 0 then (0, 0) else nearest_double c t 0)"

definition fmul :: "double \<Rightarrow> nat \<Rightarrow> double" where
  "fmul x n = (if fst x = 0 \<or> n = 0 then (0, 0) else nearest_double (fst x * n) 1 (snd x))"

text \<open>
  \<^verbatim>\<open>x.toFixed(1)\<close> for \<open>0 \<le> x < 10^21\<close>: with \<open>n\<close> the integer for which
  \<open>n / 10 - x\<close> is closest to zero, the larger of two, the digits of \<open>n\<close> with a point
  before the last one.
\<close>

definition fixed_tenths :: "double \<Rightarrow> nat" where
  "fixed_tenths x =
     (if 0 \<le> snd x then 10 * fst x * 2 ^ nat (snd x)
      else (20 * fst x + 2 ^ nat (- snd x)) div 2 ^ nat (1 - snd x))"

definition one_decimal :: "nat \<Rightarrow> string" where
  "one_decimal n = show_nat (n div 10) @ ''.'' @ show_nat (n mod 10)"

definition toFixed1 :: "double \<Rightarrow> string" where
  "toFixed1 x = one_decimal (fixed_tenths x)"

subsection \<open>The dashboard\<close>

text \<open>
  \<^verbatim>\<open>totalTasks > 0 ? (completedTasks / totalTasks * 100).toFixed(1) : 0\<close>: a string
  when there are tasks, the number 0 when there are none.
\<close>

definition completion_rate :: "nat \<Rightarrow> nat \<Rightarrow> json" where
  "completion_rate completedTasks totalTasks =
     (if 0 < totalTasks then JStr (toFixed1 (fmul (fdiv completedTasks totalTasks) 100))
      else JNum 0)"

text \<open>\<^verbatim>\<open>{$group: {_id: '$key', count: {$sum: 1}}}\<close>; the store fixes no order of the groups.\<close>

definition group_count :: "('a \<Rightarrow> string) \<Rightarrow> 'a list \<Rightarrow> json" where
  "group_count key xs =
     JArr (map (\<lambda>k. JObj [(''_id'', JStr k),
                          (''count'', JNum (of_nat (length (filter (\<lambda>x. key x = k) xs))))])
            (remdups (map key xs)))"

definition dashboard :: "'b handler" where
  "dashboard req st =
     (let totalTasks = length (tasks st);
          completedTasks = length (filter (\<lambda>t. status t = ''completed'') (tasks st));
          totalProjects = length (projects st);
          activeProjects = length (filter (\<lambda>p. p_status p = ''active'') (projects st));
          tasksByStatus = group_count status (tasks st);
          tasksByPriority = group_count priority (tasks st);
          recentTasks =
            map (\<lambda>t. (t, populate (users st) [''firstName'', ''lastName''] (assignedTo t)))
              (take 5 (newest_first (tasks st)))
      in (respond 200
            (Dashboard
               (JObj [(''totalTasks'', JNum (of_nat totalTasks)),
                      (''completedTasks'', JNum (of_nat completedTasks)),
                      (''totalProjects'', JNum (of_nat totalProjects)),
                      (''activeProjects'', JNum (of_nat activeProjects)),
                      (''completionRate'', completion_rate completedTasks totalTasks)])
               (JObj [(''tasksByStatus'', tasksByStatus), (''tasksByPriority'', tasksByPriority)])
               recentTasks),
          st))"

definition route_dashboard :: "libs \<Rightarrow> env \<Rightarrow> 'b handler" where
  "route_dashboard lib e = authenticateToken lib e dashboard"

definition summary :: "response \<Rightarrow> json" where
  "summary r = (case payload r of Dashboard s c ts \<Rightarrow> s | _ \<Rightarrow> JNull)"

text \<open>
  The completion rate in the words of the specification: \<open>completed / total * 100\<close>
  rounded to one decimal place (a half upwards) and rendered with one decimal, and 0
  when there is no task.
\<close>

definition spec_completion_rate :: "nat \<Rightarrow> nat \<Rightarrow> json" where
  "spec_completion_rate completed n =
     (if 0 < n
      then JStr (one_decimal (nat (round ((of_nat completed :: rat) / of_nat n * 100 * 10))))
      else JNum 0)"

section \<open>Observing the fields of a task\<close>




section \<open>Sample data\<close>

text \<open>
  Stand-ins for the libraries, for the instances below: a hasher that keeps the salt and
  a verifier that accepts one token. They have the interface of the real ones only.
\<close>

definition demo_claims :: claims where
  "demo_claims = \<lparr>userId = Some 7, c_username = Some ''alice''\<rparr>"

definition demo_libs :: libs where
  "demo_libs =
     \<lparr>bcrypt_hash = (\<lambda>p r s. s @ CHR ''$'' # p),
      bcrypt_compare =
        (\<lambda>p h. length p < length h \<and> drop (length h - length p - 1) h = CHR ''$'' # p),
      jwt_sign = (\<lambda>c k n t. ''tok-'' @ pick (c_username c) []),
      jwt_verify = (\<lambda>t k n. if t = ''tok-alice'' then Some demo_claims else None),
      validator_message =
        (\<lambda>p k. case k of Required \<Rightarrow> ''Path `'' @ p @ ''` is required.''
                | _ \<Rightarrow> ''Validator failed for path `'' @ p @ ''`'')\<rparr>"

definition demo_env :: env where
  "demo_env = \<lparr>now = 1000, fresh_id = 42, salt = ''NaCl'', JWT_SECRET = ''secret''\<rparr>"

definition empty_store :: store where
  "empty_store = \<lparr>users = [], tasks = [], projects = []\<rparr>"

definition bob :: user where
  "bob = \<lparr>u_id = 1, username = ''bob'', email = ''bob@x.io'', password = ''NaCl$hunter22'',
          firstName = ''Bob'', lastName = ''Stone'', role = ''user'', avatar = [],
          isActive = False, lastLogin = None, u_createdAt = 10, u_updatedAt = 10\<rparr>"

definition carol :: user where
  "carol = \<lparr>u_id = 2, username = ''alice@x.io'', email = ''carol@x.io'',
            password = ''NaCl$hunter22'', firstName = ''Carol'', lastName = ''Reed'',
            role = ''user'', avatar = [], isActive = True, lastLogin = None,
            u_createdAt = 20, u_updatedAt = 20\<rparr>"

definition alice_registration :: reg_body where
  "alice_registration =
     \<lparr>rb_username = Some ''alice'', rb_email = Some ''alice@x.io'',
      rb_password = Some ''secret1'', rb_firstName = Some ''Alice'',
      rb_lastName = Some ''Liddell''\<rparr>"

definition anonymous :: "'b \<Rightarrow> 'b request" where
  "anonymous b = \<lparr>authorization = None, user = None, body = b\<rparr>"

definition bearer :: "string \<Rightarrow> 'b \<Rightarrow> 'b request" where
  "bearer t b = \<lparr>authorization = Some (''Bearer '' @ t), user = None, body = b\<rparr>"

definition alice :: user where
  "alice = \<lparr>u_id = 42, username = ''alice'', email = ''alice@x.io'',
            password = ''NaCl$secret1'', firstName = ''Alice'', lastName = ''Liddell'',
            role = ''user'', avatar = [], isActive = True, lastLogin = None,
            u_createdAt = 1000, u_updatedAt = 1000\<rparr>"

definition users_only :: "user list \<Rightarrow> store" where
  "users_only us = \<lparr>users = us, tasks = [], projects = []\<rparr>"

definition credentials :: "string \<Rightarrow> string \<Rightarrow> login_body" where
  "credentials un pw = \<lparr>lb_username = Some un, lb_password = Some pw\<rparr>"

definition report_task :: task_body where
  "report_task =
     \<lparr>b_title = Some ''Write report'', b_description = Some ''Quarterly figures'',
      b_status = None, b_priority = None, b_assignedTo = None, b_createdBy = Some 99,
      b_project = Some ''apollo'', b_tags = None, b_dueDate = None,
      b_estimatedHours = None, b_actualHours = None, b_createdAt = None,
      b_updatedAt = None\<rparr>"

definition no_change :: task_body where
  "no_change =
     \<lparr>b_title = None, b_description = None, b_status = None, b_priority = None,
      b_assignedTo = None, b_createdBy = None, b_project = None, b_tags = None,
      b_dueDate = None, b_estimatedHours = None, b_actualHours = None, b_createdAt = None,
      b_updatedAt = None\<rparr>"

definition sample_task :: "oid \<Rightarrow> string \<Rightarrow> date \<Rightarrow> task" where
  "sample_task i s d =
     \<lparr>t_id = i, title = ''Task'', description = ''Work'', status = s, priority = ''medium'',
      assignedTo = None, createdBy = 7, project = ''apollo'', tags = [], dueDate = None,
      estimatedHours = None, actualHours = 0, attachments = [], comments = [],
      createdAt = d, updatedAt = d\<rparr>"

definition tasks_only :: "task list \<Rightarrow> store" where
  "tasks_only ts = \<lparr>users = [], tasks = ts, projects = []\<rparr>"



definition three_tasks :: store where
  "three_tasks =
     tasks_only [sample_task 5 ''todo'' 100, sample_task 6 ''completed'' 50,
                 sample_task 7 ''completed'' 70]"

definition store_with :: "nat \<Rightarrow> nat \<Rightarrow> store" where
  "store_with c n =
     tasks_only (replicate c (sample_task 1 ''completed'' 0) @
                 replicate (n - c) (sample_task 2 ''todo'' 0))"

section \<open>Evaluating the sample data\<close>

lemma demo_libs_simps:
  "bcrypt_hash demo_libs p r s = s @ CHR ''$'' # p"
  "bcrypt_compare demo_libs p h =
     (length p < length h \<and> drop (length h - length p - 1) h = CHR ''$'' # p)"
  "jwt_sign demo_libs c k n d = ''tok-'' @ pick (c_username c) []"
  "jwt_verify demo_libs t k d = (if t = ''tok-alice'' then Some demo_claims else None)"
  "validator_message demo_libs path Required = ''Path `'' @ path @ ''` is required.''"
  by (simp_all add: demo_libs_def)

lemmas string_defs = trim_def is_space_def toLowerCase_def lower_char_def truthy_def

lemmas user_defs =
  register_def login_def new_user_def save_new_user_def save_user_def validate_user_def
  check_required_def check_enum_def check_password_def user_roles_def issue_token_def
  register_user_json_def login_user_json_def respond_def error_json_def

section \<open>The authentication middleware\<close>

lemma split_on_no_sep: "c \<notin> set t \<Longrightarrow> split_on c t = [t]"
  by (induction t) auto

lemma header_token_bearer:
  "t \<noteq> [] \<Longrightarrow> CHR '' '' \<notin> set t \<Longrightarrow> header_token (Some (''Bearer '' @ t)) = Some t"
  by (simp add: header_token_def index_def split_on_no_sep)

lemma header_token_absent: "\<not> truthy (header_token None)"
  by (simp add: header_token_def truthy_def)

text \<open>
  C2. On a protected route the middleware runs first. When the authorization header
  yields no token (there is no header, or its second space-separated piece is missing or
  empty) it answers 401 and leaves the store alone, whatever the handler is; when the
  token does not verify (bad signature, malformed, expired) it answers 403 in the same
  way; otherwise the handler runs on the request with the decoded payload attached as
  \<open>user\<close>. The token of a header \<^verbatim>\<open>Bearer t\<close> is \<open>t\<close>.
\<close>

theorem authenticateToken_gate:
  "(\<not> truthy (header_token (authorization req)) \<longrightarrow>
      authenticateToken lib e next req st =
        (respond 401 (error_json ''Access token required''), st)) \<and>
   (\<forall>t. header_token (authorization req) = Some t \<and> t \<noteq> [] \<and>
        jwt_verify lib t (JWT_SECRET e) (now e) = None \<longrightarrow>
      authenticateToken lib e next req st =
        (respond 403 (error_json ''Invalid or expired token''), st)) \<and>
   (\<forall>t u. header_token (authorization req) = Some t \<and> t \<noteq> [] \<and>
        jwt_verify lib t (JWT_SECRET e) (now e) = Some u \<longrightarrow>
      authenticateToken lib e next req st = next (req\<lparr>user := Some u\<rparr>) st) \<and>
   (authorization req = None \<longrightarrow> \<not> truthy (header_token (authorization req))) \<and>
   (\<forall>t. authorization req = Some (''Bearer '' @ t) \<and> CHR '' '' \<notin> set t \<longrightarrow>
      header_token (authorization req) = Some t)"
proof (intro conjI allI impI)
  assume "\<not> truthy (header_token (authorization req))"
  then show "authenticateToken lib e next req st =
      (respond 401 (error_json ''Access token required''), st)"
    by (simp add: authenticateToken_def Let_def)
next
  fix t
  assume "header_token (authorization req) = Some t \<and> t \<noteq> [] \<and>
    jwt_verify lib t (JWT_SECRET e) (now e) = None"
  then show "authenticateToken lib e next req st =
      (respond 403 (error_json ''Invalid or expired token''), st)"
    by (simp add: authenticateToken_def Let_def truthy_def)
next
  fix t u
  assume "header_token (authorization req) = Some t \<and> t \<noteq> [] \<and>
    jwt_verify lib t (JWT_SECRET e) (now e) = Some u"
  then show "authenticateToken lib e next req st = next (req\<lparr>user := Some u\<rparr>) st"
    by (simp add: authenticateToken_def Let_def truthy_def)
next
  assume "authorization req = None"
  then show "\<not> truthy (header_token (authorization req))"
    by (simp add: header_token_absent)
next
  fix t
  assume a: "authorization req = Some (''Bearer '' @ t) \<and> CHR '' '' \<notin> set t"
  then have "split_on CHR '' '' (''Bearer '' @ t) = [''Bearer'', t]"
    by (simp add: split_on_no_sep)
  with a show "header_token (authorization req) = Some t"
    by (simp add: header_token_def index_def)
qed

theorem authenticateToken_gate_witness:
  "authenticateToken demo_libs demo_env get_tasks
      \<lparr>authorization = None, user = None, body = no_query\<rparr> empty_store =
     (respond 401 (error_json ''Access token required''), empty_store) \<and>
   authenticateToken demo_libs demo_env get_tasks
      \<lparr>authorization = Some ''Bearer forged'', user = None, body = no_query\<rparr> empty_store =
     (respond 403 (error_json ''Invalid or expired token''), empty_store) \<and>
   authenticateToken demo_libs demo_env get_tasks
      \<lparr>authorization = Some ''Bearer tok-alice'', user = None, body = no_query\<rparr> empty_store =
     get_tasks \<lparr>authorization = Some ''Bearer tok-alice'', user = Some demo_claims, body = no_query\<rparr>
       empty_store"
  using
    authenticateToken_gate [where req = "\<lparr>authorization = None, user = None, body = no_query\<rparr>"
      and lib = demo_libs and e = demo_env and ?next = get_tasks and st = empty_store]
    authenticateToken_gate [where req = "\<lparr>authorization = Some ''Bearer forged'', user = None, body = no_query\<rparr>"
      and lib = demo_libs and e = demo_env and ?next = get_tasks and st = empty_store]
    authenticateToken_gate [where req = "\<lparr>authorization = Some ''Bearer tok-alice'', user = None, body = no_query\<rparr>"
      and lib = demo_libs and e = demo_env and ?next = get_tasks and st = empty_store]
  by (simp add: header_token_def index_def truthy_def demo_libs_simps)

section \<open>Registration and login\<close>

lemma find_snoc_new:
  "\<forall>x \<in> set xs. \<not> P x \<Longrightarrow> P y \<Longrightarrow> find P (xs @ [y]) = Some y"
  by (induction xs) auto

lemma find_append_Some: "find P xs = Some x \<Longrightarrow> find P (xs @ ys) = Some x"
  by (induction xs) (auto split: if_splits)

lemma find_None_set: "find P xs = None \<longleftrightarrow> (\<forall>x \<in> set xs. \<not> P x)"
  by (induction xs) auto

lemma validate_user_lastLogin: "validate_user (u\<lparr>lastLogin := d\<rparr>) = validate_user u"
  by (simp add: validate_user_def)

text \<open>
  C10. A registration in which one of the five fields is missing (or empty), or whose
  password has fewer than 6 characters, is answered 400 and leaves the store as it was.
\<close>

theorem register_rejects_incomplete:
  assumes "\<not> truthy (rb_username (body req)) \<or> \<not> truthy (rb_email (body req)) \<or>
           \<not> truthy (rb_password (body req)) \<or> \<not> truthy (rb_firstName (body req)) \<or>
           \<not> truthy (rb_lastName (body req)) \<or>
           (\<exists>pw. rb_password (body req) = Some pw \<and> length pw < 6)"
  shows "code (fst (register lib e req st)) = 400 \<and> snd (register lib e req st) = st"
  using assms
  by (auto simp: register_def Let_def respond_def truthy_def split: option.splits)

theorem register_rejects_incomplete_witness:
  "code (fst (register demo_libs demo_env
            (anonymous (alice_registration\<lparr>rb_password := Some ''12345''\<rparr>))
            (users_only [bob]))) = 400 \<and>
   snd (register demo_libs demo_env
            (anonymous (alice_registration\<lparr>rb_password := Some ''12345''\<rparr>))
            (users_only [bob])) = users_only [bob] \<and>
   code (fst (register demo_libs demo_env
            (anonymous (alice_registration\<lparr>rb_email := None\<rparr>)) empty_store)) = 400 \<and>
   snd (register demo_libs demo_env
            (anonymous (alice_registration\<lparr>rb_email := None\<rparr>)) empty_store) = empty_store"
  using
    register_rejects_incomplete [where req = "anonymous (alice_registration\<lparr>rb_password := Some ''12345''\<rparr>)"
      and lib = demo_libs and e = demo_env and st = "users_only [bob]"]
    register_rejects_incomplete [where req = "anonymous (alice_registration\<lparr>rb_email := None\<rparr>)"
      and lib = demo_libs and e = demo_env and st = empty_store]
  by (simp add: anonymous_def alice_registration_def truthy_def)

text \<open>What a registration answered 201 has done.\<close>

lemma register_created:
  assumes "register lib e req st = (r, st')" and "code r = 201"
  shows "\<exists>un em pw fnm lnm.
           body req = \<lparr>rb_username = Some un, rb_email = Some em, rb_password = Some pw,
                        rb_firstName = Some fnm, rb_lastName = Some lnm\<rparr> \<and>
           find (\<lambda>u. email u = toLowerCase em \<or> username u = trim un) (users st) = None \<and>
           validate_user (new_user e un em (bcrypt_hash lib pw 12 (salt e)) fnm lnm) = [] \<and>
           st' = st\<lparr>users := users st @ [new_user e un em (bcrypt_hash lib pw 12 (salt e)) fnm lnm]\<rparr> \<and>
           r = respond 201
                 (Json (JObj [(''message'', JStr ''User created successfully''),
                              (''token'', JStr (issue_token lib e
                                  (new_user e un em (bcrypt_hash lib pw 12 (salt e)) fnm lnm))),
                              (''user'', register_user_json
                                  (new_user e un em (bcrypt_hash lib pw 12 (salt e)) fnm lnm))]))"
  using assms
  apply (cases "body req")
  apply (auto simp: register_def Let_def respond_def truthy_def save_new_user_def
      split: option.splits if_splits sum.splits)
  done

lemma register_alice:
  "register demo_libs demo_env (anonymous alice_registration) (users_only [carol]) =
     (respond 201
        (Json (JObj [(''message'', JStr ''User created successfully''),
                     (''token'', JStr ''tok-alice''),
                     (''user'', register_user_json alice)])),
      users_only [carol, alice])"
  by (simp add: user_defs string_defs demo_libs_simps demo_env_def anonymous_def
        alice_registration_def users_only_def carol_def alice_def pick_def)

lemma demo_hash_conceals: "\<forall>p s. bcrypt_hash demo_libs p 12 s \<noteq> p"
proof (intro allI notI)
  fix p s :: string
  assume "bcrypt_hash demo_libs p 12 s = p"
  then have "length (s @ CHR ''$'' # p) = length p"
    by (simp add: demo_libs_simps)
  then show False by simp
qed

lemma demo_compare_hash: "\<forall>p s. bcrypt_compare demo_libs p (bcrypt_hash demo_libs p 12 s)"
  by (simp add: demo_libs_simps)

text \<open>What a registration that passes the guards and the schema does, and what any other does.\<close>

lemma register_accepts:
  assumes b: "body req = \<lparr>rb_username = Some un, rb_email = Some em, rb_password = Some pw,
                           rb_firstName = Some fnm, rb_lastName = Some lnm\<rparr>"
    and filled: "trim un \<noteq> []" "em \<noteq> []" "trim fnm \<noteq> []" "trim lnm \<noteq> []"
    and long: "6 \<le> length pw" "6 \<le> length (bcrypt_hash lib pw 12 (salt e))"
    and free: "find (\<lambda>u. email u = toLowerCase em \<or> username u = trim un) (users st) = None"
    and fresh: "\<forall>v \<in> set (users st). u_id v \<noteq> fresh_id e"
  shows "register lib e req st =
           (respond 201
              (Json (JObj [(''message'', JStr ''User created successfully''),
                           (''token'', JStr (issue_token lib e
                               (new_user e un em (bcrypt_hash lib pw 12 (salt e)) fnm lnm))),
                           (''user'', register_user_json
                               (new_user e un em (bcrypt_hash lib pw 12 (salt e)) fnm lnm))])),
            st\<lparr>users := users st @ [new_user e un em (bcrypt_hash lib pw 12 (salt e)) fnm lnm]\<rparr>)"
proof -
  let ?u = "new_user e un em (bcrypt_hash lib pw 12 (salt e)) fnm lnm"
  have ne: "un \<noteq> []" "fnm \<noteq> []" "lnm \<noteq> []" "pw \<noteq> []"
    using filled long by (auto simp: trim_def)
  have valid: "validate_user ?u = []"
    using filled long
    by (auto simp: validate_user_def new_user_def check_required_def check_password_def
        check_enum_def user_roles_def toLowerCase_def)
  have others: "\<forall>v \<in> set (users st). email v \<noteq> toLowerCase em \<and> username v \<noteq> trim un"
    using free by (simp add: find_None_set)
  have "save_new_user ?u st = Inr (st\<lparr>users := users st @ [?u]\<rparr>)"
    using valid others fresh by (auto simp: save_new_user_def new_user_def)
  then show ?thesis
    using b ne filled(2) long(1) free by (simp add: register_def Let_def truthy_def)
qed

lemma register_refusal_stores_nothing:
  assumes "register lib e req st = (r, st')" and "code r \<noteq> 201"
  shows "st' = st"
  using assms
  by (auto simp: register_def Let_def respond_def split: if_splits option.splits sum.splits)

text \<open>
  C6. A registration whose five fields are filled (the names not blank), whose password
  has at least 6 characters, as has its hash, and whose username, email and fresh id no
  stored user has, is answered 201: one user is appended whose \<open>password\<close> is the
  output of the hasher on the plaintext (cost 12, fresh salt), which is not the plaintext
  as long as the hasher never returns its input, and the \<open>user\<close> object of the
  response has the keys id, username, email, firstName, lastName and role, and no
  password. Every registration answered 201 is of this kind, and a registration with
  another answer stores nothing.
\<close>

theorem register_hides_password:
  assumes hash: "\<forall>p s. bcrypt_hash lib p 12 s \<noteq> p"
  shows
    "(\<forall>un em pw fnm lnm.
        body req = \<lparr>rb_username = Some un, rb_email = Some em, rb_password = Some pw,
                     rb_firstName = Some fnm, rb_lastName = Some lnm\<rparr> \<and>
        trim un \<noteq> [] \<and> em \<noteq> [] \<and> trim fnm \<noteq> [] \<and> trim lnm \<noteq> [] \<and>
        6 \<le> length pw \<and> 6 \<le> length (bcrypt_hash lib pw 12 (salt e)) \<and>
        find (\<lambda>u. email u = toLowerCase em \<or> username u = trim un) (users st) = None \<and>
        (\<forall>v \<in> set (users st). u_id v \<noteq> fresh_id e) \<longrightarrow>
        (\<exists>u. register lib e req st =
                (respond 201
                   (Json (JObj [(''message'', JStr ''User created successfully''),
                                (''token'', JStr (issue_token lib e u)),
                                (''user'',
                                 JObj [(''id'', JId (u_id u)), (''username'', JStr (username u)),
                                       (''email'', JStr (email u)),
                                       (''firstName'', JStr (firstName u)),
                                       (''lastName'', JStr (lastName u)),
                                       (''role'', JStr (role u))])])),
                 st\<lparr>users := users st @ [u]\<rparr>) \<and>
              u = new_user e un em (bcrypt_hash lib pw 12 (salt e)) fnm lnm \<and>
              password u = bcrypt_hash lib pw 12 (salt e) \<and> password u \<noteq> pw)) \<and>
     (\<forall>r st'. register lib e req st = (r, st') \<and> code r = 201 \<longrightarrow>
        (\<exists>pw u. rb_password (body req) = Some pw \<and>
           users st' = users st @ [u] \<and>
           password u = bcrypt_hash lib pw 12 (salt e) \<and> password u \<noteq> pw \<and>
           payload r =
             Json (JObj [(''message'', JStr ''User created successfully''),
                         (''token'', JStr (issue_token lib e u)),
                         (''user'',
                          JObj [(''id'', JId (u_id u)), (''username'', JStr (username u)),
                                (''email'', JStr (email u)), (''firstName'', JStr (firstName u)),
                                (''lastName'', JStr (lastName u)), (''role'', JStr (role u))])]) \<and>
           keys (register_user_json u) =
             [''id'', ''username'', ''email'', ''firstName'', ''lastName'', ''role''] \<and>
           field ''password'' (register_user_json u) = None)) \<and>
     (\<forall>r st'. register lib e req st = (r, st') \<and> code r \<noteq> 201 \<longrightarrow> st' = st)"
proof (intro conjI allI impI)
  fix un em pw fnm lnm
  assume h: "body req = \<lparr>rb_username = Some un, rb_email = Some em, rb_password = Some pw,
                     rb_firstName = Some fnm, rb_lastName = Some lnm\<rparr> \<and>
        trim un \<noteq> [] \<and> em \<noteq> [] \<and> trim fnm \<noteq> [] \<and> trim lnm \<noteq> [] \<and>
        6 \<le> length pw \<and> 6 \<le> length (bcrypt_hash lib pw 12 (salt e)) \<and>
        find (\<lambda>u. email u = toLowerCase em \<or> username u = trim un) (users st) = None \<and>
        (\<forall>v \<in> set (users st). u_id v \<noteq> fresh_id e)"
  let ?u = "new_user e un em (bcrypt_hash lib pw 12 (salt e)) fnm lnm"
  have "register lib e req st =
           (respond 201
              (Json (JObj [(''message'', JStr ''User created successfully''),
                           (''token'', JStr (issue_token lib e ?u)),
                           (''user'', register_user_json ?u)])),
            st\<lparr>users := users st @ [?u]\<rparr>)"
    using h by (intro register_accepts) simp_all
  moreover have "password ?u = bcrypt_hash lib pw 12 (salt e)"
    by (simp add: new_user_def)
  moreover have "password ?u \<noteq> pw"
    using hash by (simp add: new_user_def)
  ultimately show "\<exists>u. register lib e req st =
                (respond 201
                   (Json (JObj [(''message'', JStr ''User created successfully''),
                                (''token'', JStr (issue_token lib e u)),
                                (''user'',
                                 JObj [(''id'', JId (u_id u)), (''username'', JStr (username u)),
                                       (''email'', JStr (email u)),
                                       (''firstName'', JStr (firstName u)),
                                       (''lastName'', JStr (lastName u)),
                                       (''role'', JStr (role u))])])),
                 st\<lparr>users := users st @ [u]\<rparr>) \<and>
              u = new_user e un em (bcrypt_hash lib pw 12 (salt e)) fnm lnm \<and>
              password u = bcrypt_hash lib pw 12 (salt e) \<and> password u \<noteq> pw"
    by (simp add: register_user_json_def)
next
  fix r st'
  assume a: "register lib e req st = (r, st') \<and> code r = 201"
  then have reg: "register lib e req st = (r, st')" and ok: "code r = 201"
    by simp_all
  from register_created [OF reg ok] obtain un em pw fnm lnm where
    b: "body req = \<lparr>rb_username = Some un, rb_email = Some em, rb_password = Some pw,
                     rb_firstName = Some fnm, rb_lastName = Some lnm\<rparr>"
    and st': "st' = st\<lparr>users := users st @ [new_user e un em (bcrypt_hash lib pw 12 (salt e)) fnm lnm]\<rparr>"
    and r: "r = respond 201
                 (Json (JObj [(''message'', JStr ''User created successfully''),
                              (''token'', JStr (issue_token lib e
                                  (new_user e un em (bcrypt_hash lib pw 12 (salt e)) fnm lnm))),
                              (''user'', register_user_json
                                  (new_user e un em (bcrypt_hash lib pw 12 (salt e)) fnm lnm))]))"
    by blast
  let ?u = "new_user e un em (bcrypt_hash lib pw 12 (salt e)) fnm lnm"
  have "password ?u = bcrypt_hash lib pw 12 (salt e)"
    by (simp add: new_user_def)
  moreover have "password ?u \<noteq> pw"
    using hash by (simp add: new_user_def)
  moreover have "keys (register_user_json ?u) =
      [''id'', ''username'', ''email'', ''firstName'', ''lastName'', ''role'']"
    by (simp add: register_user_json_def keys_def)
  moreover have "field ''password'' (register_user_json ?u) = None"
    by (simp add: register_user_json_def field_def)
  ultimately show "\<exists>pw u. rb_password (body req) = Some pw \<and>
           users st' = users st @ [u] \<and>
           password u = bcrypt_hash lib pw 12 (salt e) \<and> password u \<noteq> pw \<and>
           payload r =
             Json (JObj [(''message'', JStr ''User created successfully''),
                         (''token'', JStr (issue_token lib e u)),
                         (''user'',
                          JObj [(''id'', JId (u_id u)), (''username'', JStr (username u)),
                                (''email'', JStr (email u)), (''firstName'', JStr (firstName u)),
                                (''lastName'', JStr (lastName u)), (''role'', JStr (role u))])]) \<and>
           keys (register_user_json u) =
             [''id'', ''username'', ''email'', ''firstName'', ''lastName'', ''role''] \<and>
           field ''password'' (register_user_json u) = None"
    using b st' r by (simp add: respond_def register_user_json_def)
next
  fix r st'
  assume "register lib e req st = (r, st') \<and> code r \<noteq> 201"
  then show "st' = st"
    using register_refusal_stores_nothing [of lib e req st r st'] by simp
qed

text \<open>
  The registration of \<open>alice\<close> next to \<open>carol\<close>: the answer and the new store follow
  from the theorem; the stored password is the salted hash, and the body had the
  plaintext.
\<close>

theorem register_hides_password_witness:
  "register demo_libs demo_env (anonymous alice_registration) (users_only [carol]) =
     (respond 201
        (Json (JObj [(''message'', JStr ''User created successfully''),
                     (''token'', JStr ''tok-alice''),
                     (''user'',
                      JObj [(''id'', JId 42), (''username'', JStr ''alice''),
                            (''email'', JStr ''alice@x.io''), (''firstName'', JStr ''Alice''),
                            (''lastName'', JStr ''Liddell''), (''role'', JStr ''user'')])])),
      users_only [carol, alice]) \<and>
   rb_password alice_registration = Some ''secret1'' \<and>
   password alice = ''NaCl$secret1'' \<and>
   snd (register demo_libs demo_env
          (anonymous (alice_registration\<lparr>rb_username := Some ''alice@x.io''\<rparr>))
          (users_only [carol])) = users_only [carol]"
proof -
  have new: "new_user demo_env ''alice'' ''alice@x.io''
               (bcrypt_hash demo_libs ''secret1'' 12 (salt demo_env)) ''Alice'' ''Liddell'' = alice"
    by (simp add: new_user_def demo_env_def demo_libs_simps alice_def string_defs)
  have pre: "body (anonymous alice_registration) =
        \<lparr>rb_username = Some ''alice'', rb_email = Some ''alice@x.io'',
         rb_password = Some ''secret1'', rb_firstName = Some ''Alice'',
         rb_lastName = Some ''Liddell''\<rparr> \<and>
      trim ''alice'' \<noteq> [] \<and> ''alice@x.io'' \<noteq> [] \<and> trim ''Alice'' \<noteq> [] \<and>
      trim ''Liddell'' \<noteq> [] \<and> 6 \<le> length ''secret1'' \<and>
      6 \<le> length (bcrypt_hash demo_libs ''secret1'' 12 (salt demo_env)) \<and>
      find (\<lambda>u. email u = toLowerCase ''alice@x.io'' \<or> username u = trim ''alice'')
        (users (users_only [carol])) = None \<and>
      (\<forall>v \<in> set (users (users_only [carol])). u_id v \<noteq> fresh_id demo_env)"
    by (simp add: anonymous_def alice_registration_def users_only_def carol_def demo_env_def
        demo_libs_simps string_defs)
  have refused: "code (fst (register demo_libs demo_env
          (anonymous (alice_registration\<lparr>rb_username := Some ''alice@x.io''\<rparr>))
          (users_only [carol]))) \<noteq> 201"
    by (simp add: register_def Let_def respond_def anonymous_def alice_registration_def
        users_only_def carol_def string_defs)
  note inst = register_hides_password [OF demo_hash_conceals,
      where e = demo_env and req = "anonymous alice_registration" and st = "users_only [carol]"]
  note accepted = inst [THEN conjunct1, rule_format, OF pre]
  note inst' = register_hides_password [OF demo_hash_conceals,
      where e = demo_env
        and req = "anonymous (alice_registration\<lparr>rb_username := Some ''alice@x.io''\<rparr>)"
        and st = "users_only [carol]"]
  note refusal = inst' [THEN conjunct2, THEN conjunct2, rule_format]
  from accepted have "register demo_libs demo_env (anonymous alice_registration) (users_only [carol]) =
     (respond 201
        (Json (JObj [(''message'', JStr ''User created successfully''),
                     (''token'', JStr (issue_token demo_libs demo_env alice)),
                     (''user'',
                      JObj [(''id'', JId (u_id alice)), (''username'', JStr (username alice)),
                            (''email'', JStr (email alice)), (''firstName'', JStr (firstName alice)),
                            (''lastName'', JStr (lastName alice)), (''role'', JStr (role alice))])])),
      users_only [carol]\<lparr>users := users (users_only [carol]) @ [alice]\<rparr>)"
    unfolding new by (elim exE conjE) simp
  moreover have "snd (register demo_libs demo_env
          (anonymous (alice_registration\<lparr>rb_username := Some ''alice@x.io''\<rparr>))
          (users_only [carol])) = users_only [carol]"
    by (rule refusal [where r = "fst (register demo_libs demo_env
          (anonymous (alice_registration\<lparr>rb_username := Some ''alice@x.io''\<rparr>))
          (users_only [carol]))"]) (simp add: refused)
  ultimately show ?thesis
    by (simp add: issue_token_def demo_libs_simps demo_env_def alice_def users_only_def
        alice_registration_def pick_def)
qed

text \<open>
  After a registration answered 201, a login with the same username and password is
  answered 200, provided the hasher verifies what it hashed and no earlier account has
  that username as its email address: the document that \<^verbatim>\<open>user.save()\<close>
  validates again is the one the registration validated.
\<close>

lemma login_after_register:
  assumes reg: "register lib e req st = (r, st')" and ok: "code r = 201"
    and un: "rb_username (body req) = Some un" and pw: "rb_password (body req) = Some pw"
    and hash: "\<forall>p s. bcrypt_compare lib p (bcrypt_hash lib p 12 s)"
    and other: "\<forall>v \<in> set (users st). email v \<noteq> toLowerCase un"
  shows "code (fst (login lib e' (anonymous (credentials un pw)) st')) = 200"
proof -
  from register_created [OF reg ok] un pw obtain em fnm lnm where
    none: "find (\<lambda>u. email u = toLowerCase em \<or> username u = trim un) (users st) = None"
    and valid: "validate_user (new_user e un em (bcrypt_hash lib pw 12 (salt e)) fnm lnm) = []"
    and st': "st' = st\<lparr>users := users st @ [new_user e un em (bcrypt_hash lib pw 12 (salt e)) fnm lnm]\<rparr>"
    and b: "body req = \<lparr>rb_username = Some un, rb_email = Some em, rb_password = Some pw,
                     rb_firstName = Some fnm, rb_lastName = Some lnm\<rparr>"
    by fastforce
  let ?u = "new_user e un em (bcrypt_hash lib pw 12 (salt e)) fnm lnm"
  have ne: "un \<noteq> []" "pw \<noteq> []"
    using reg ok b by (auto simp: register_def Let_def truthy_def respond_def split: if_splits)
  have "\<forall>v \<in> set (users st). \<not> (username v = trim un \<or> email v = toLowerCase un)"
    using none other by (auto simp: find_None_set)
  moreover have "username ?u = trim un \<or> email ?u = toLowerCase un"
    by (simp add: new_user_def)
  ultimately have "find (\<lambda>u. username u = trim un \<or> email u = toLowerCase un) (users st') = Some ?u"
    unfolding st' by (simp add: find_snoc_new)
  moreover have "isActive ?u" "bcrypt_compare lib pw (password ?u)"
    using hash by (simp_all add: new_user_def)
  ultimately show ?thesis
    using ne valid
    by (simp add: login_def Let_def truthy_def anonymous_def credentials_def respond_def
        save_user_def validate_user_lastLogin)
qed

text \<open>
  C7. The login looks the identifier up among usernames and email addresses at once and
  takes the first match, while registration only refuses a username that is taken as a
  username and an email that is taken as an email. When an earlier account answers to the
  email address of a new account (it has that address as its username), a login with the
  new account's email and password is checked against the earlier account and answered
  401, although the registration was answered 201.
\<close>

theorem login_by_email_shadowed:
  assumes reg: "register lib e req st = (r, st')" and ok: "code r = 201"
    and em: "rb_email (body req) = Some em" and pw: "rb_password (body req) = Some pw"
    and earlier: "find (\<lambda>u. username u = trim em \<or> email u = toLowerCase em) (users st) = Some v"
    and differs: "\<not> bcrypt_compare lib pw (password v)"
  shows "login lib e' (anonymous (credentials em pw)) st' =
           (respond 401 (error_json ''Invalid credentials''), st')"
proof -
  from register_created [OF reg ok] em pw obtain un fnm lnm where
    st': "st' = st\<lparr>users := users st @ [new_user e un em (bcrypt_hash lib pw 12 (salt e)) fnm lnm]\<rparr>"
    and b: "body req = \<lparr>rb_username = Some un, rb_email = Some em, rb_password = Some pw,
                     rb_firstName = Some fnm, rb_lastName = Some lnm\<rparr>"
    by fastforce
  have ne: "em \<noteq> []" "pw \<noteq> []"
    using reg ok b by (auto simp: register_def Let_def truthy_def respond_def split: if_splits)
  have "find (\<lambda>u. username u = trim em \<or> email u = toLowerCase em) (users st') = Some v"
    unfolding st' using earlier by (simp add: find_append_Some)
  then show ?thesis
    using ne differs
    by (simp add: login_def Let_def truthy_def anonymous_def credentials_def)
qed

theorem login_by_email_shadowed_witness:
  "code (fst (register demo_libs demo_env (anonymous alice_registration) (users_only [carol]))) = 201 \<and>
   snd (register demo_libs demo_env (anonymous alice_registration) (users_only [carol])) =
     users_only [carol, alice] \<and>
   bcrypt_compare demo_libs ''secret1'' (password alice) \<and>
   login demo_libs demo_env (anonymous (credentials ''alice@x.io'' ''secret1''))
       (users_only [carol, alice]) =
     (respond 401 (error_json ''Invalid credentials''), users_only [carol, alice])"
proof -
  have ok: "code (respond 201
        (Json (JObj [(''message'', JStr ''User created successfully''),
                     (''token'', JStr ''tok-alice''),
                     (''user'', register_user_json alice)]))) = 201"
    by (simp add: respond_def)
  have em: "rb_email (body (anonymous alice_registration)) = Some ''alice@x.io''"
    and pw: "rb_password (body (anonymous alice_registration)) = Some ''secret1''"
    by (simp_all add: anonymous_def alice_registration_def)
  have earlier: "find (\<lambda>u. username u = trim ''alice@x.io'' \<or> email u = toLowerCase ''alice@x.io'')
      (users (users_only [carol])) = Some carol"
    by (simp add: users_only_def carol_def string_defs)
  have differs: "\<not> bcrypt_compare demo_libs ''secret1'' (password carol)"
    by (simp add: carol_def demo_libs_simps)
  have right: "bcrypt_compare demo_libs ''secret1'' (password alice)"
    by (simp add: alice_def demo_libs_simps)
  from login_by_email_shadowed [OF register_alice ok em pw earlier differs, where e' = demo_env]
  show ?thesis
    using right by (simp add: register_alice ok)
qed

text \<open>A login with the right identifier and a wrong password, for comparison with C9.\<close>

lemma login_wrong_password:
  assumes "lb_username (body req) = Some un" and "un \<noteq> []"
    and "lb_password (body req) = Some pw" and "pw \<noteq> []"
    and "find (\<lambda>u. username u = trim un \<or> email u = toLowerCase un) (users st) = Some u"
    and "isActive u" and "\<not> bcrypt_compare lib pw (password u)"
  shows "login lib e req st = (respond 401 (error_json ''Invalid credentials''), st)"
  using assms by (simp add: login_def Let_def truthy_def)

text \<open>
  C9. When the account the login finds is not active, the login is answered 401 with the
  message of a wrong password, whatever the password is and whatever the verifier says;
  the response carries no token and the store is as it was.
\<close>

theorem login_inactive_rejected:
  assumes "lb_username (body req) = Some un" and "un \<noteq> []"
    and "lb_password (body req) = Some pw" and "pw \<noteq> []"
    and "find (\<lambda>u. username u = trim un \<or> email u = toLowerCase un) (users st) = Some u"
    and "\<not> isActive u"
  shows "login lib e req st = (respond 401 (error_json ''Invalid credentials''), st)"
  using assms by (simp add: login_def Let_def truthy_def)

theorem login_inactive_rejected_witness:
  "bcrypt_compare demo_libs ''hunter22'' (password bob) \<and>
   login demo_libs demo_env (anonymous (credentials ''bob'' ''hunter22''))
     (users_only [carol, bob]) =
   (respond 401 (error_json ''Invalid credentials''), users_only [carol, bob])"
  using login_inactive_rejected [where lib = demo_libs and e = demo_env and u = bob
      and un = "''bob''" and pw = "''hunter22''"
      and req = "anonymous (credentials ''bob'' ''hunter22'')"
      and st = "users_only [carol, bob]"]
  by (simp add: anonymous_def credentials_def users_only_def bob_def carol_def
        demo_libs_simps string_defs)

section \<open>Creating a task\<close>

lemmas task_defs =
  create_task_def update_task_def new_task_def insert_task_def findByIdAndUpdate_def
  apply_update_def cast_task_body_def missing_path_errors_def set_path_errors_def
  missing_def when_set_def check_required_def check_enum_def check_min_def
  task_statuses_def task_priorities_def pick_def pick_opt_def populate_task_def
  populate_def select_fields_def user_field_def name_fields_def respond_def error_json_def

lemmas route_defs =
  route_post_tasks_def route_put_task_def route_get_tasks_def authenticateToken_def
  header_token_def index_def bearer_def truthy_def

lemma create_task_created:
  assumes "create_task e req st = (r, st')" and "code r = 201"
  shows "\<exists>u t. user req = Some u \<and>
           new_task e ((body req)\<lparr>b_createdBy := userId u, b_updatedAt := Some (now e)\<rparr>) = Inr t \<and>
           st' = st\<lparr>tasks := tasks st @ [t]\<rparr> \<and>
           r = respond 201 (TaskDoc (populate_task (users st) False t))"
  using assms
  by (auto simp: create_task_def Let_def insert_task_def respond_def find_snoc_new
      split: option.splits sum.splits if_splits)

lemma new_task_createdBy:
  "new_task e b = Inr t \<Longrightarrow> b_createdBy b = Some (createdBy t)"
  by (auto simp: new_task_def Let_def cast_task_body_def split: if_splits option.splits)

lemma new_task_id: "new_task e b = Inr t \<Longrightarrow> t_id t = fresh_id e"
  by (auto simp: new_task_def Let_def split: if_splits option.splits)

lemma set_path_errors_stamps:
  "set_path_errors (cast_task_body (b\<lparr>b_createdBy := c, b_updatedAt := d\<rparr>)) =
     set_path_errors (cast_task_body b)"
  by (simp add: set_path_errors_def cast_task_body_def)

text \<open>A document with the required paths set and every set value valid is accepted.\<close>

lemma new_task_passes:
  assumes "b_title b = Some ti" and "b_description b = Some de" and "b_createdBy b = Some cr"
    and "b_project b = Some pr" and "set_path_errors (cast_task_body b) = []"
  shows "\<exists>t. new_task e b = Inr t"
  using assms
  by (simp add: new_task_def Let_def missing_path_errors_def missing_def cast_task_body_def)

lemma create_task_accepts:
  assumes u: "user req = Some u"
    and t: "new_task e ((body req)\<lparr>b_createdBy := userId u, b_updatedAt := Some (now e)\<rparr>) = Inr t"
    and fresh: "\<forall>x \<in> set (tasks st). t_id x \<noteq> fresh_id e"
  shows "create_task e req st =
           (respond 201 (TaskDoc (populate_task (users st) False t)), st\<lparr>tasks := tasks st @ [t]\<rparr>)"
proof -
  have i: "t_id t = fresh_id e"
    using t by (rule new_task_id)
  then have "insert_task t st = Inr (st\<lparr>tasks := tasks st @ [t]\<rparr>)"
    using fresh by (simp add: insert_task_def)
  moreover have "find (\<lambda>x. t_id x = t_id t) (tasks st @ [t]) = Some t"
    using fresh i by (intro find_snoc_new) simp_all
  ultimately show ?thesis
    using u t by (simp add: create_task_def Let_def)
qed

lemma create_task_refusal_stores_nothing:
  assumes "create_task e req st = (r, st')" and "code r \<noteq> 201"
  shows "st' = st"
  using assms
  by (auto simp: create_task_def Let_def respond_def split: option.splits sum.splits)

text \<open>
  C1. The response and the store after \<^verbatim>\<open>POST /api/tasks\<close> do not depend on the
  \<open>createdBy\<close> of the request body. A request whose token verifies to a payload
  with a \<open>userId\<close>, whose body has a title, a description and a project and values
  that pass their validators, is answered 201 (the fresh id being unused): the one task
  added and returned is the document made of the body with the \<open>userId\<close> of the
  token as \<open>createdBy\<close>. Whenever the request is answered 201, its token has verified
  to a payload whose \<open>userId\<close> is the \<open>createdBy\<close> of the one task that was added
  and returned; with any other answer no task is created.
\<close>

theorem create_task_stamps_creator:
  "(\<forall>c. route_post_tasks lib e (req\<lparr>body := (body req)\<lparr>b_createdBy := c\<rparr>\<rparr>) st =
        route_post_tasks lib e req st) \<and>
   (\<forall>tok u uid ti de pr.
      header_token (authorization req) = Some tok \<and> tok \<noteq> [] \<and>
      jwt_verify lib tok (JWT_SECRET e) (now e) = Some u \<and> userId u = Some uid \<and>
      b_title (body req) = Some ti \<and> b_description (body req) = Some de \<and>
      b_project (body req) = Some pr \<and> set_path_errors (cast_task_body (body req)) = [] \<and>
      (\<forall>x \<in> set (tasks st). t_id x \<noteq> fresh_id e) \<longrightarrow>
      (\<exists>t. route_post_tasks lib e req st =
              (respond 201 (TaskDoc (populate_task (users st) False t)),
               st\<lparr>tasks := tasks st @ [t]\<rparr>) \<and>
            new_task e ((body req)\<lparr>b_createdBy := Some uid, b_updatedAt := Some (now e)\<rparr>) = Inr t \<and>
            createdBy t = uid)) \<and>
   (\<forall>r st'. route_post_tasks lib e req st = (r, st') \<and> code r = 201 \<longrightarrow>
      (\<exists>tok u t. header_token (authorization req) = Some tok \<and>
          jwt_verify lib tok (JWT_SECRET e) (now e) = Some u \<and>
          userId u = Some (createdBy t) \<and>
          tasks st' = tasks st @ [t] \<and>
          payload r = TaskDoc (populate_task (users st') False t))) \<and>
   (\<forall>r st'. route_post_tasks lib e req st = (r, st') \<and> code r \<noteq> 201 \<longrightarrow> st' = st)"
proof (intro conjI allI impI)
  fix c
  show "route_post_tasks lib e (req\<lparr>body := (body req)\<lparr>b_createdBy := c\<rparr>\<rparr>) st =
        route_post_tasks lib e req st"
    by (simp add: route_post_tasks_def authenticateToken_def create_task_def Let_def
        split: option.splits)
next
  fix tok u uid ti de pr
  assume h: "header_token (authorization req) = Some tok \<and> tok \<noteq> [] \<and>
      jwt_verify lib tok (JWT_SECRET e) (now e) = Some u \<and> userId u = Some uid \<and>
      b_title (body req) = Some ti \<and> b_description (body req) = Some de \<and>
      b_project (body req) = Some pr \<and> set_path_errors (cast_task_body (body req)) = [] \<and>
      (\<forall>x \<in> set (tasks st). t_id x \<noteq> fresh_id e)"
  then have tok: "header_token (authorization req) = Some tok" "tok \<noteq> []"
    and u: "jwt_verify lib tok (JWT_SECRET e) (now e) = Some u" "userId u = Some uid"
    and b: "b_title (body req) = Some ti" "b_description (body req) = Some de"
      "b_project (body req) = Some pr" "set_path_errors (cast_task_body (body req)) = []"
    and fresh: "\<forall>x \<in> set (tasks st). t_id x \<noteq> fresh_id e"
    by simp_all
  let ?taskData = "(body req)\<lparr>b_createdBy := Some uid, b_updatedAt := Some (now e)\<rparr>"
  have "\<exists>t. new_task e ?taskData = Inr t"
    using b by (intro new_task_passes [where ti = ti and de = de and cr = uid and pr = pr])
      (simp_all add: set_path_errors_stamps)
  then obtain t where t: "new_task e ?taskData = Inr t" ..
  have c: "createdBy t = uid"
    using new_task_createdBy [OF t] by simp
  have "new_task e ((body (req\<lparr>user := Some u\<rparr>))\<lparr>b_createdBy := userId u,
      b_updatedAt := Some (now e)\<rparr>) = Inr t"
    using t by (simp add: u(2))
  then have "create_task e (req\<lparr>user := Some u\<rparr>) st =
      (respond 201 (TaskDoc (populate_task (users st) False t)), st\<lparr>tasks := tasks st @ [t]\<rparr>)"
    using fresh by (intro create_task_accepts [where u = u]) simp_all
  then have "route_post_tasks lib e req st =
      (respond 201 (TaskDoc (populate_task (users st) False t)), st\<lparr>tasks := tasks st @ [t]\<rparr>)"
    using tok u(1) by (simp add: route_post_tasks_def authenticateToken_def Let_def truthy_def)
  with t c show "\<exists>t. route_post_tasks lib e req st =
              (respond 201 (TaskDoc (populate_task (users st) False t)),
               st\<lparr>tasks := tasks st @ [t]\<rparr>) \<and>
            new_task e ((body req)\<lparr>b_createdBy := Some uid, b_updatedAt := Some (now e)\<rparr>) = Inr t \<and>
            createdBy t = uid"
    by blast
next
  fix r st'
  assume a: "route_post_tasks lib e req st = (r, st') \<and> code r = 201"
  then obtain tok u where tok: "header_token (authorization req) = Some tok"
      and u: "jwt_verify lib tok (JWT_SECRET e) (now e) = Some u"
      and c: "create_task e (req\<lparr>user := Some u\<rparr>) st = (r, st')"
    by (auto simp: route_post_tasks_def authenticateToken_def Let_def respond_def
        split: option.splits if_splits)
  from create_task_created [OF c] a obtain t where
    t: "new_task e ((body req)\<lparr>b_createdBy := userId u, b_updatedAt := Some (now e)\<rparr>) = Inr t"
    and st': "st' = st\<lparr>tasks := tasks st @ [t]\<rparr>"
    and r: "r = respond 201 (TaskDoc (populate_task (users st) False t))"
    by auto
  from new_task_createdBy [OF t] have "userId u = Some (createdBy t)" by simp
  with tok u st' r show "\<exists>tok u t. header_token (authorization req) = Some tok \<and>
          jwt_verify lib tok (JWT_SECRET e) (now e) = Some u \<and>
          userId u = Some (createdBy t) \<and>
          tasks st' = tasks st @ [t] \<and>
          payload r = TaskDoc (populate_task (users st') False t)"
    by (auto simp: respond_def)
next
  fix r st'
  assume a: "route_post_tasks lib e req st = (r, st') \<and> code r \<noteq> 201"
  then show "st' = st"
    by (auto simp: route_post_tasks_def authenticateToken_def Let_def respond_def
        split: option.splits if_splits dest: create_task_refusal_stores_nothing)
qed

text \<open>
  The body \<open>report_task\<close> names user 99 as creator and is sent with the token of user 7:
  the theorem gives the answer, in which the task is created by 7. Without the body's
  \<open>createdBy\<close> the answer is the same, and without a token nothing is stored.
\<close>

theorem create_task_stamps_creator_witness:
  "b_createdBy report_task = Some 99 \<and>
   route_post_tasks demo_libs demo_env (bearer ''tok-alice'' report_task) (users_only [alice]) =
     (respond 201
        (TaskDoc (populate_task [alice] False
           ((sample_task 42 ''todo'' 1000)
              \<lparr>title := ''Write report'', description := ''Quarterly figures''\<rparr>))),
      \<lparr>users = [alice],
       tasks = [(sample_task 42 ''todo'' 1000)
                  \<lparr>title := ''Write report'', description := ''Quarterly figures''\<rparr>],
       projects = []\<rparr>) \<and>
   createdBy ((sample_task 42 ''todo'' 1000)
      \<lparr>title := ''Write report'', description := ''Quarterly figures''\<rparr>) = 7 \<and>
   route_post_tasks demo_libs demo_env (bearer ''tok-alice'' (report_task\<lparr>b_createdBy := None\<rparr>))
       (users_only [alice]) =
     route_post_tasks demo_libs demo_env (bearer ''tok-alice'' report_task) (users_only [alice]) \<and>
   snd (route_post_tasks demo_libs demo_env (anonymous report_task) (users_only [alice])) =
     users_only [alice]"
proof -
  let ?t = "(sample_task 42 ''todo'' 1000)
      \<lparr>title := ''Write report'', description := ''Quarterly figures''\<rparr>"
  note inst = create_task_stamps_creator [where lib = demo_libs and e = demo_env
      and req = "bearer ''tok-alice'' report_task" and st = "users_only [alice]"]
  note independent = inst [THEN conjunct1, rule_format, of None]
  have pre: "header_token (authorization (bearer ''tok-alice'' report_task)) = Some ''tok-alice'' \<and>
      ''tok-alice'' \<noteq> [] \<and>
      jwt_verify demo_libs ''tok-alice'' (JWT_SECRET demo_env) (now demo_env) = Some demo_claims \<and>
      userId demo_claims = Some 7 \<and>
      b_title (body (bearer ''tok-alice'' report_task)) = Some ''Write report'' \<and>
      b_description (body (bearer ''tok-alice'' report_task)) = Some ''Quarterly figures'' \<and>
      b_project (body (bearer ''tok-alice'' report_task)) = Some ''apollo'' \<and>
      set_path_errors (cast_task_body (body (bearer ''tok-alice'' report_task))) = [] \<and>
      (\<forall>x \<in> set (tasks (users_only [alice])). t_id x \<noteq> fresh_id demo_env)"
    by (simp add: route_defs task_defs demo_libs_simps demo_claims_def report_task_def
        users_only_def string_defs)
  note accepted = inst [THEN conjunct2, THEN conjunct1, rule_format, OF pre]
  have new: "new_task demo_env
        ((body (bearer ''tok-alice'' report_task))\<lparr>b_createdBy := Some 7, b_updatedAt := Some (now demo_env)\<rparr>) =
      Inr ?t"
    by (simp add: task_defs bearer_def report_task_def demo_env_def sample_task_def
        string_defs Let_def)
  from accepted have created: "route_post_tasks demo_libs demo_env (bearer ''tok-alice'' report_task)
        (users_only [alice]) =
      (respond 201 (TaskDoc (populate_task (users (users_only [alice])) False ?t)),
       (users_only [alice])\<lparr>tasks := tasks (users_only [alice]) @ [?t]\<rparr>)"
    unfolding new by (elim exE conjE) simp
  note inst' = create_task_stamps_creator [where lib = demo_libs and e = demo_env
      and req = "anonymous report_task" and st = "users_only [alice]"]
  note refusal = inst' [THEN conjunct2, THEN conjunct2, THEN conjunct2, rule_format]
  have refused: "code (fst (route_post_tasks demo_libs demo_env (anonymous report_task)
      (users_only [alice]))) \<noteq> 201"
    by (simp add: route_defs anonymous_def respond_def)
  have kept: "snd (route_post_tasks demo_libs demo_env (anonymous report_task) (users_only [alice])) =
      users_only [alice]"
    by (rule refusal [where r = "fst (route_post_tasks demo_libs demo_env (anonymous report_task)
          (users_only [alice]))"]) (simp add: refused)
  from independent have indep: "route_post_tasks demo_libs demo_env
        (bearer ''tok-alice'' (report_task\<lparr>b_createdBy := None\<rparr>)) (users_only [alice]) =
      route_post_tasks demo_libs demo_env (bearer ''tok-alice'' report_task) (users_only [alice])"
    by (simp add: bearer_def)
  from created have answer: "route_post_tasks demo_libs demo_env (bearer ''tok-alice'' report_task)
        (users_only [alice]) =
      (respond 201 (TaskDoc (populate_task [alice] False ?t)),
       \<lparr>users = [alice], tasks = [?t], projects = []\<rparr>)"
    by (simp add: users_only_def)
  have "b_createdBy report_task = Some 99" "createdBy ?t = 7"
    by (simp_all add: report_task_def sample_task_def)
  with answer indep kept show ?thesis
    by blast
qed

section \<open>Errors below the routes\<close>

text \<open>The status codes the two writing task routes can answer: 400 is not among them.\<close>

lemma create_task_codes: "code (fst (create_task e req st)) \<in> {201, 500}"
  by (auto simp: create_task_def Let_def respond_def split: option.splits sum.splits)

lemma update_task_codes: "code (fst (update_task e i req st)) \<in> {200, 404, 500}"
  by (auto simp: update_task_def respond_def split: option.splits sum.splits prod.splits)

lemma task_handlers_never_400:
  "code (fst (create_task e req st)) \<noteq> 400"
  "code (fst (update_task e i req st)) \<noteq> 400"
  using create_task_codes [of e req st] update_task_codes [of e i req st] by auto

lemma task_routes_never_400:
  "code (fst (route_post_tasks lib e req st)) \<noteq> 400"
  "code (fst (route_put_task lib e i req st)) \<noteq> 400"
  by (auto simp: route_post_tasks_def route_put_task_def authenticateToken_def Let_def
      respond_def task_handlers_never_400 split: option.splits)

text \<open>
  C3. A validation error of \<^verbatim>\<open>task.save()\<close> or of
  \<^verbatim>\<open>findByIdAndUpdate\<close> ends in the \<^verbatim>\<open>catch\<close> block of its handler,
  which answers 500 with a fixed message and leaves the store as it was; the error
  handler, which would have answered 400 with one message for each failing path, is
  not reached, and the two routes never answer 400.
\<close>

theorem validation_error_answered_500:
  "(\<forall>u errs. user req = Some u \<and>
       new_task e ((body req)\<lparr>b_createdBy := userId u, b_updatedAt := Some (now e)\<rparr>) =
         Inl (ValidationError errs) \<longrightarrow>
       create_task e req st = (respond 500 (error_json ''Failed to create task''), st) \<and>
       errorHandler lib (ValidationError errs) =
         respond 400
           (Json (JObj [(''error'', JStr ''Validation Error''),
                        (''details'',
                         JArr (map (\<lambda>(path, k). JStr (validator_message lib path k)) errs))]))) \<and>
   (\<forall>errs. findByIdAndUpdate i ((body req)\<lparr>b_updatedAt := Some (now e)\<rparr>) st =
         Inl (ValidationError errs) \<longrightarrow>
       update_task e i req st = (respond 500 (error_json ''Failed to update task''), st)) \<and>
   code (fst (route_post_tasks lib e req st)) \<noteq> 400 \<and>
   code (fst (route_put_task lib e i req st)) \<noteq> 400"
proof (intro conjI allI impI)
  fix u errs
  assume a: "user req = Some u \<and>
    new_task e ((body req)\<lparr>b_createdBy := userId u, b_updatedAt := Some (now e)\<rparr>) =
      Inl (ValidationError errs)"
  then show "create_task e req st = (respond 500 (error_json ''Failed to create task''), st)"
    by (simp add: create_task_def)
  show "errorHandler lib (ValidationError errs) =
      respond 400
        (Json (JObj [(''error'', JStr ''Validation Error''),
                     (''details'',
                      JArr (map (\<lambda>(path, k). JStr (validator_message lib path k)) errs))]))"
    by (simp add: errorHandler_def)
next
  fix errs
  assume "findByIdAndUpdate i ((body req)\<lparr>b_updatedAt := Some (now e)\<rparr>) st =
    Inl (ValidationError errs)"
  then show "update_task e i req st = (respond 500 (error_json ''Failed to update task''), st)"
    by (simp add: update_task_def)
next
  show "code (fst (route_post_tasks lib e req st)) \<noteq> 400"
    by (rule task_routes_never_400)
  show "code (fst (route_put_task lib e i req st)) \<noteq> 400"
    by (rule task_routes_never_400)
qed

theorem validation_error_answered_500_witness:
  "route_post_tasks demo_libs demo_env (bearer ''tok-alice'' (report_task\<lparr>b_title := None\<rparr>))
       (users_only [alice]) =
     (respond 500 (error_json ''Failed to create task''), users_only [alice]) \<and>
   errorHandler demo_libs (ValidationError [(''title'', Required)]) =
     respond 400
       (Json (JObj [(''error'', JStr ''Validation Error''),
                    (''details'', JArr [JStr ''Path `title` is required.''])])) \<and>
   route_put_task demo_libs demo_env 5 (bearer ''tok-alice'' (no_change\<lparr>b_status := Some ''done''\<rparr>))
       (tasks_only [sample_task 5 ''todo'' 100]) =
     (respond 500 (error_json ''Failed to update task''), tasks_only [sample_task 5 ''todo'' 100])"
proof -
  let ?req = "\<lparr>authorization = Some ''Bearer tok-alice'', user = Some demo_claims,
               body = report_task\<lparr>b_title := None\<rparr>\<rparr>"
  let ?upd = "\<lparr>authorization = Some ''Bearer tok-alice'', user = Some demo_claims,
               body = no_change\<lparr>b_status := Some ''done''\<rparr>\<rparr>"
  have n: "new_task demo_env ((body ?req)\<lparr>b_createdBy := userId demo_claims,
             b_updatedAt := Some (now demo_env)\<rparr>) = Inl (ValidationError [(''title'', Required)])"
    by (simp add: task_defs report_task_def demo_claims_def Let_def)
  have f: "findByIdAndUpdate 5 ((body ?upd)\<lparr>b_updatedAt := Some (now demo_env)\<rparr>)
             (tasks_only [sample_task 5 ''todo'' 100]) =
           Inl (ValidationError [(''status'', Enum ''done'')])"
    by (simp add: task_defs no_change_def Let_def)
  from validation_error_answered_500 [where req = ?req and e = demo_env and lib = demo_libs
      and st = "users_only [alice]"] n
  have c: "create_task demo_env ?req (users_only [alice]) =
        (respond 500 (error_json ''Failed to create task''), users_only [alice])"
    and h: "errorHandler demo_libs (ValidationError [(''title'', Required)]) =
        respond 400
          (Json (JObj [(''error'', JStr ''Validation Error''),
                       (''details'', JArr [JStr ''Path `title` is required.''])]))"
    by (simp_all add: demo_libs_simps)
  from validation_error_answered_500 [where req = ?upd and e = demo_env and i = 5
      and st = "tasks_only [sample_task 5 ''todo'' 100]"] f
  have u: "update_task demo_env 5 ?upd (tasks_only [sample_task 5 ''todo'' 100]) =
        (respond 500 (error_json ''Failed to update task''), tasks_only [sample_task 5 ''todo'' 100])"
    by simp
  show ?thesis
    using c h u by (simp add: route_defs demo_libs_simps)
qed

section \<open>Updating a task\<close>


lemma set_path_errors_updatedAt [simp]:
  "set_path_errors (cast_task_body (b\<lparr>b_updatedAt := d\<rparr>)) = set_path_errors (cast_task_body b)"
  by (simp add: set_path_errors_def cast_task_body_def)



lemma new_task_accepts_iff:
  "(\<exists>t. new_task e b = Inr t) \<longleftrightarrow>
     missing_path_errors (cast_task_body b) = [] \<and> set_path_errors (cast_task_body b) = []"
  by (auto simp: new_task_def Let_def missing_path_errors_def missing_def
      split: option.splits)

lemma update_rejects_iff:
  "(\<exists>err. findByIdAndUpdate i b st = Inl err) \<longleftrightarrow> set_path_errors (cast_task_body b) \<noteq> []"
  by (auto simp: findByIdAndUpdate_def Let_def split: option.splits)








section \<open>Listing tasks\<close>

lemma set_newest_first [simp]: "set (newest_first ts) = set ts"
  by (simp add: newest_first_def)

lemma length_newest_first [simp]: "length (newest_first ts) = length ts"
  by (simp add: newest_first_def)

lemma doc_populate_task [simp]: "doc (populate_task us b t) = t"
  by (simp add: populate_task_def)

lemma matches_completed_page [simp]:
  "matches (build_filter completed_page) = (\<lambda>t. status t = ''completed'')"
  by (rule ext)
     (simp add: completed_page_def no_query_def build_filter_def matches_def truthy_def)

lemma show_int_digit [simp]: "show_int 1 = ''1''" "show_int 2 = ''2''"
  by (simp_all add: show_int_def show_nat.simps)

lemma get_tasks_page:
  assumes "q_page (body req) = Some p" and "q_limit (body req) = Some l"
    and "1 \<le> p" and "1 \<le> l"
  shows "get_tasks req st =
           (respond 200
              (TaskPage
                 (map (populate_task (users st) True)
                    (take (nat l)
                       (drop (nat ((p - 1) * l))
                          (newest_first (filter (matches (build_filter (body req))) (tasks st))))))
                 (JNum (of_int \<lceil>(of_nat (length (filter (matches (build_filter (body req))) (tasks st))) :: rat)
                                  / of_int l\<rceil>))
                 (JStr (show_int p))
                 (length (filter (matches (build_filter (body req))) (tasks st)))),
            st)"
proof -
  have "\<not> (p - 1) * l < 0"
    using assms by (simp add: mult_less_0_iff)
  then have "find_tasks (build_filter (body req)) (l * 1) ((p - 1) * l) (tasks st) =
      Inr (take (nat l)
             (drop (nat ((p - 1) * l))
                (newest_first (filter (matches (build_filter (body req))) (tasks st)))))"
    using assms unfolding find_tasks_def apply_limit_def by auto
  then show ?thesis
    using assms
    by (simp add: get_tasks_def Let_def pick_def countDocuments_def total_pages_def
        current_page_def)
qed

text \<open>
  C5. For the query \<^verbatim>\<open>status=completed&page=1&limit=10\<close> the listing is
  answered 200 with at most 10 tasks, all of status \<open>completed\<close>; \<open>total\<close> is the
  number of stored tasks of that status, \<open>totalPages\<close> the ceiling of \<open>total / 10\<close>
  and \<open>currentPage\<close> the string \<^verbatim>\<open>"1"\<close> of the query.
  For any filter, page \<open>p \<ge> 1\<close> and limit \<open>l \<ge> 1\<close>, the tasks returned are the
  first \<open>l\<close> matching tasks, newest first, after the first \<open>(p - 1) * l\<close>.
\<close>

theorem list_completed_first_page:
  "(body req = completed_page \<longrightarrow>
      (\<exists>ts. get_tasks req st =
          (respond 200
             (TaskPage ts
                (JNum (of_int \<lceil>(of_nat (length (filter (\<lambda>t. status t = ''completed'') (tasks st))) :: rat) / 10\<rceil>))
                (JStr ''1'')
                (length (filter (\<lambda>t. status t = ''completed'') (tasks st)))),
           st) \<and>
        (\<forall>t \<in> set ts. status (doc t) = ''completed'') \<and> length ts \<le> 10)) \<and>
   (\<forall>p l. q_page (body req) = Some p \<and> q_limit (body req) = Some l \<and> 1 \<le> p \<and> 1 \<le> l \<longrightarrow>
      (\<exists>ts n. get_tasks req st =
          (respond 200 (TaskPage ts (JNum (of_int \<lceil>(of_nat n :: rat) / of_int l\<rceil>)) (JStr (show_int p)) n),
           st) \<and>
        n = length (filter (matches (build_filter (body req))) (tasks st)) \<and>
        map doc ts =
          take (nat l)
            (drop (nat (p - 1) * nat l)
               (newest_first (filter (matches (build_filter (body req))) (tasks st))))))"
proof (intro conjI allI impI)
  assume b: "body req = completed_page"
  have pl: "q_page (body req) = Some 1" "q_limit (body req) = Some 10"
    using b by (simp_all add: completed_page_def no_query_def)
  let ?ts = "map (populate_task (users st) True)
      (take (nat 10) (drop (nat ((1 - 1) * 10))
         (newest_first (filter (matches (build_filter (body req))) (tasks st)))))"
  have "get_tasks req st =
      (respond 200
         (TaskPage ?ts
            (JNum (of_int \<lceil>(of_nat (length (filter (\<lambda>t. status t = ''completed'') (tasks st))) :: rat) / 10\<rceil>))
            (JStr ''1'')
            (length (filter (\<lambda>t. status t = ''completed'') (tasks st)))),
       st)"
    using get_tasks_page [OF pl] by (simp add: b)
  moreover have "\<forall>t \<in> set ?ts. status (doc t) = ''completed''"
    by (auto simp: b dest!: in_set_takeD)
  moreover have "length ?ts \<le> 10" by simp
  ultimately show "\<exists>ts. get_tasks req st =
          (respond 200
             (TaskPage ts
                (JNum (of_int \<lceil>(of_nat (length (filter (\<lambda>t. status t = ''completed'') (tasks st))) :: rat) / 10\<rceil>))
                (JStr ''1'')
                (length (filter (\<lambda>t. status t = ''completed'') (tasks st)))),
           st) \<and>
        (\<forall>t \<in> set ts. status (doc t) = ''completed'') \<and> length ts \<le> 10"
    by blast
next
  fix p l
  assume a: "q_page (body req) = Some p \<and> q_limit (body req) = Some l \<and> 1 \<le> p \<and> 1 \<le> l"
  let ?xs = "take (nat l)
      (drop (nat (p - 1) * nat l)
         (newest_first (filter (matches (build_filter (body req))) (tasks st))))"
  from a have "nat ((p - 1) * l) = nat (p - 1) * nat l"
    by (simp add: nat_mult_distrib)
  with a have "get_tasks req st =
      (respond 200
         (TaskPage (map (populate_task (users st) True) ?xs)
            (JNum (of_int \<lceil>(of_nat (length (filter (matches (build_filter (body req))) (tasks st))) :: rat)
                             / of_int l\<rceil>))
            (JStr (show_int p))
            (length (filter (matches (build_filter (body req))) (tasks st)))),
       st)"
    using get_tasks_page [of req p l st] by simp
  moreover have "map doc (map (populate_task (users st) True) ?xs) = ?xs"
    by (simp add: comp_def)
  ultimately show "\<exists>ts n. get_tasks req st =
          (respond 200 (TaskPage ts (JNum (of_int \<lceil>(of_nat n :: rat) / of_int l\<rceil>)) (JStr (show_int p)) n),
           st) \<and>
        n = length (filter (matches (build_filter (body req))) (tasks st)) \<and>
        map doc ts =
          take (nat l)
            (drop (nat (p - 1) * nat l)
               (newest_first (filter (matches (build_filter (body req))) (tasks st))))"
    by blast
qed

lemma ceiling_fifth: "\<lceil>(1 :: rat) / 5\<rceil> = 1"
  by (rule ceiling_unique) simp_all

lemma list_three_tasks:
  "route_get_tasks demo_libs demo_env (bearer ''tok-alice'' completed_page) three_tasks =
     (respond 200
        (TaskPage
           [populate_task [] True (sample_task 7 ''completed'' 70),
            populate_task [] True (sample_task 6 ''completed'' 50)]
           (JNum 1) (JStr ''1'') 2),
      three_tasks)"
  by (simp add: route_defs demo_libs_simps get_tasks_def find_tasks_def apply_limit_def
        countDocuments_def total_pages_def current_page_def newest_first_def pick_def
        build_filter_def matches_def completed_page_def no_query_def three_tasks_def tasks_only_def
        sample_task_def Let_def ceiling_fifth respond_def)

theorem list_completed_first_page_witness:
  "(\<exists>ts. get_tasks (anonymous completed_page) three_tasks =
       (respond 200 (TaskPage ts (JNum 1) (JStr ''1'') 2), three_tasks) \<and>
     list_all (\<lambda>t. status (doc t) = ''completed'') ts \<and> length ts \<le> 10) \<and>
   (\<exists>ts. get_tasks (anonymous (completed_page\<lparr>q_page := Some 2, q_limit := Some 1\<rparr>)) three_tasks =
       (respond 200 (TaskPage ts (JNum 2) (JStr ''2'') 2), three_tasks) \<and>
     map doc ts = [sample_task 6 ''completed'' 50])"
proof -
  have n: "length (filter (\<lambda>t. status t = ''completed'') (tasks three_tasks)) = 2"
    by (simp add: three_tasks_def tasks_only_def sample_task_def)
  from list_completed_first_page [where req = "anonymous completed_page" and st = three_tasks]
  have first: "\<exists>ts. get_tasks (anonymous completed_page) three_tasks =
       (respond 200 (TaskPage ts (JNum 1) (JStr ''1'') 2), three_tasks) \<and>
     list_all (\<lambda>t. status (doc t) = ''completed'') ts \<and> length ts \<le> 10"
    by (simp add: anonymous_def n list_all_iff ceiling_fifth)
  let ?q = "completed_page\<lparr>q_page := Some 2, q_limit := Some 1\<rparr>"
  have f: "matches (build_filter ?q) = (\<lambda>t. status t = ''completed'')"
    by (rule ext)
       (simp add: completed_page_def no_query_def build_filter_def matches_def truthy_def)
  have s: "take (nat 1) (drop (nat (2 - 1) * nat 1)
        (newest_first (filter (\<lambda>t. status t = ''completed'') (tasks three_tasks)))) =
      [sample_task 6 ''completed'' 50]"
    by (simp add: newest_first_def three_tasks_def tasks_only_def sample_task_def)
  from list_completed_first_page [where req = "anonymous ?q" and st = three_tasks]
  have "\<exists>ts n. get_tasks (anonymous ?q) three_tasks =
          (respond 200 (TaskPage ts (JNum (of_int \<lceil>(of_nat n :: rat) / of_int 1\<rceil>)) (JStr (show_int 2)) n),
           three_tasks) \<and>
        n = length (filter (matches (build_filter (body (anonymous ?q)))) (tasks three_tasks)) \<and>
        map doc ts =
          take (nat 1)
            (drop (nat (2 - 1) * nat 1)
               (newest_first (filter (matches (build_filter (body (anonymous ?q)))) (tasks three_tasks))))"
    by (simp add: anonymous_def)
  then have second: "\<exists>ts. get_tasks (anonymous ?q) three_tasks =
       (respond 200 (TaskPage ts (JNum 2) (JStr ''2'') 2), three_tasks) \<and>
     map doc ts = [sample_task 6 ''completed'' 50]"
    using f n s by (auto simp: anonymous_def)
  from first second show ?thesis by blast
qed

section \<open>The completion rate\<close>

subsection \<open>The error of one rounding\<close>

lemma bits_upper: "n < 2 ^ bits n"
proof (induction n rule: bits.induct)
  case (1 n)
  show ?case
  proof (cases "n = 0")
    case True
    then show ?thesis by (simp add: bits.simps)
  next
    case False
    with 1 have "n div 2 < 2 ^ bits (n div 2)" by simp
    then have "n < 2 * 2 ^ bits (n div 2)" by linarith
    with False show ?thesis by (simp add: bits.simps [of n])
  qed
qed

lemma bits_lower: "0 < n \<Longrightarrow> 2 ^ (bits n - 1) \<le> n"
proof (induction n rule: bits.induct)
  case (1 n)
  show ?case
  proof (cases "n div 2 = 0")
    case True
    with 1 have "n = 1" by linarith
    then show ?thesis by (simp add: bits.simps)
  next
    case False
    with 1 have ih: "2 ^ (bits (n div 2) - 1) \<le> n div 2" by simp
    from False have "0 < bits (n div 2)" by (simp add: bits.simps [of "n div 2"])
    then have "bits n - 1 = Suc (bits (n div 2) - 1)"
      using 1 by (simp add: bits.simps [of n])
    then have "(2::nat) ^ (bits n - 1) = 2 * 2 ^ (bits (n div 2) - 1)" by simp
    also have "\<dots> \<le> 2 * (n div 2)" using ih by simp
    also have "\<dots> \<le> n" by simp
    finally show ?thesis .
  qed
qed

lemma round_div_error:
  assumes "0 < d"
  shows "\<bar>of_nat (round_div n d) - (of_nat n / of_nat d :: rat)\<bar> \<le> 1 / 2"
proof -
  define q r where "q = n div d" and "r = n mod d"
  have n: "n = q * d + r" and r: "r < d" using assms by (simp_all add: q_def r_def)
  have dpos: "(0::rat) < of_nat d" using assms by simp
  have frac: "(of_nat n / of_nat d :: rat) = of_nat q + of_nat r / of_nat d"
    using dpos by (simp add: n field_simps)
  consider "2 * r < d" | "d < 2 * r" | "2 * r = d" by linarith
  then show ?thesis
  proof cases
    case 1
    then have "round_div n d = q" by (simp add: round_div_def Let_def q_def r_def)
    moreover have "(of_nat r / of_nat d :: rat) \<le> 1 / 2"
    proof -
      have "(of_nat (2 * r) :: rat) \<le> of_nat d" using 1 by (simp only: of_nat_le_iff)
      then show ?thesis using dpos by (simp add: field_simps)
    qed
    moreover have "(0::rat) \<le> of_nat r / of_nat d" by simp
    ultimately show ?thesis by (simp add: frac)
  next
    case 2
    then have "round_div n d = q + 1" by (simp add: round_div_def Let_def q_def r_def)
    moreover have "(1::rat) / 2 \<le> of_nat r / of_nat d"
    proof -
      have "(of_nat d :: rat) \<le> of_nat (2 * r)" using 2 by (simp only: of_nat_le_iff)
      then show ?thesis using dpos by (simp add: field_simps)
    qed
    moreover have "(of_nat r / of_nat d :: rat) \<le> 1"
      using r dpos by (simp add: field_simps)
    ultimately show ?thesis by (simp add: frac)
  next
    case 3
    then have rd: "round_div n d = q \<or> round_div n d = q + 1"
      by (simp add: round_div_def Let_def q_def r_def)
    have "(of_nat r / of_nat d :: rat) = 1 / 2"
    proof -
      have "(of_nat d :: rat) = of_nat (2 * r)" using 3 by simp
      then show ?thesis using dpos by (simp add: field_simps)
    qed
    with frac have v: "(of_nat n / of_nat d :: rat) = of_nat q + 1 / 2" by simp
    from rd show ?thesis
    proof
      assume "round_div n d = q"
      then show ?thesis unfolding v by simp
    next
      assume "round_div n d = q + 1"
      then show ?thesis unfolding v by simp
    qed
  qed
qed


lemma two_powi_pos [simp]: "(0::rat) < 2 powi k"
  by (simp add: power_int_def)

lemma ratio_upper:
  assumes "0 < a" and "0 < b"
  shows "(of_nat a / of_nat b :: rat) < 2 powi (int (bits a) - int (bits b) + 1)"
proof -
  have bb: "0 < bits b" using assms(2) by (simp add: bits.simps [of b])
  have "(of_nat a :: rat) < of_nat (2 ^ bits a)"
    using bits_upper [of a] by (simp only: of_nat_less_iff)
  moreover have "(of_nat (2 ^ (bits b - 1)) :: rat) \<le> of_nat b"
    using bits_lower [OF assms(2)] by (simp only: of_nat_le_iff)
  ultimately have "(of_nat a / of_nat b :: rat) < of_nat (2 ^ bits a) / of_nat (2 ^ (bits b - 1))"
    by (intro frac_less) simp_all
  also have "\<dots> = 2 powi (int (bits a)) / 2 powi (int (bits b - 1))"
    by (simp only: power_int_of_nat of_nat_power of_nat_numeral)
  also have "\<dots> = 2 powi (int (bits a) - int (bits b - 1))"
    by (simp add: power_int_diff)
  also have "int (bits a) - int (bits b - 1) = int (bits a) - int (bits b) + 1"
    using bb by simp
  finally show ?thesis .
qed

lemma ratio_lower:
  assumes "0 < a" and "0 < b"
  shows "2 powi (int (bits a) - int (bits b) - 1) < (of_nat a / of_nat b :: rat)"
proof -
  have ba: "0 < bits a" using assms(1) by (simp add: bits.simps [of a])
  have "(of_nat b :: rat) < of_nat (2 ^ bits b)"
    using bits_upper [of b] by (simp only: of_nat_less_iff)
  moreover have "(of_nat (2 ^ (bits a - 1)) :: rat) \<le> of_nat a"
    using bits_lower [OF assms(1)] by (simp only: of_nat_le_iff)
  ultimately have lt: "(of_nat (2 ^ (bits a - 1)) / of_nat (2 ^ bits b) :: rat) < of_nat a / of_nat b"
    using assms by (intro frac_less2) simp_all
  have "int (bits a) - int (bits b) - 1 = int (bits a - 1) - int (bits b)"
    using ba by simp
  then have "(2::rat) powi (int (bits a) - int (bits b) - 1) =
      2 powi (int (bits a - 1) - int (bits b))"
    by (rule arg_cong)
  also have "\<dots> = 2 powi (int (bits a - 1)) / 2 powi (int (bits b))"
    by (simp add: power_int_diff)
  also have "\<dots> = of_nat (2 ^ (bits a - 1)) / of_nat (2 ^ bits b)"
    by (simp only: power_int_of_nat of_nat_power of_nat_numeral)
  also note lt
  finally show ?thesis .
qed

lemma pow2_le_ratio:
  assumes "0 < b"
  shows "(if 0 \<le> d then 2 ^ nat d * b \<le> a else b \<le> a * 2 ^ nat (- d)) \<longleftrightarrow>
         2 powi d \<le> (of_nat a / of_nat b :: rat)"
proof (cases "0 \<le> d")
  case True
  have "2 ^ nat d * b \<le> a \<longleftrightarrow> (of_nat (2 ^ nat d * b) :: rat) \<le> of_nat a"
    by (simp only: of_nat_le_iff)
  also have "\<dots> \<longleftrightarrow> (2::rat) ^ nat d \<le> of_nat a / of_nat b"
    using assms by (simp add: field_simps)
  finally show ?thesis using True by (simp add: power_int_def)
next
  case False
  have "b \<le> a * 2 ^ nat (- d) \<longleftrightarrow> (of_nat b :: rat) \<le> of_nat (a * 2 ^ nat (- d))"
    by (simp only: of_nat_le_iff)
  also have "\<dots> \<longleftrightarrow> ((1::rat) / 2) ^ nat (- d) \<le> of_nat a / of_nat b"
    using assms by (simp add: power_one_over field_simps)
  finally show ?thesis using False by (simp add: power_int_def)
qed

lemma scaled_ratio:
  assumes "0 < b"
  shows "(if 0 \<le> s then of_nat a / of_nat (b * 2 ^ nat s)
          else of_nat (a * 2 ^ nat (- s)) / of_nat b) =
         (of_nat a / of_nat b :: rat) / 2 powi s"
  using assms by (simp add: power_int_def power_inverse field_simps)


lemma nearest_double_error:
  assumes a: "0 < a" and b: "0 < b"
  shows "\<bar>dval (nearest_double a b k) - of_nat a / of_nat b * 2 powi k\<bar>
           \<le> of_nat a / of_nat b * 2 powi k / 2 ^ 53"
    and "0 < fst (nearest_double a b k)"
proof -
  define A :: rat where "A = of_nat a / of_nat b"
  define d where "d = int (bits a) - int (bits b)"
  define l where "l = (if 2 powi d \<le> A then d else d - 1)"
  define s where "s = l - 52"
  define m where
    "m = (if 0 \<le> s then round_div a (b * 2 ^ nat s) else round_div (a * 2 ^ nat (- s)) b)"
  define y where "y = A / 2 powi s"
  have nd: "nearest_double a b k = (m, s + k)"
    unfolding nearest_double_def Let_def m_def s_def l_def d_def A_def
    using pow2_le_ratio [OF b, of "int (bits a) - int (bits b)" a] by simp
  have lo: "2 powi l \<le> A" and hi: "A < 2 powi (l + 1)"
  proof -
    have u: "A < 2 powi (d + 1)" and w: "2 powi (d - 1) < A"
      using ratio_upper [OF a b] ratio_lower [OF a b] by (simp_all add: A_def d_def)
    show "2 powi l \<le> A" using w by (simp add: l_def)
    show "A < 2 powi (l + 1)" using u by (simp add: l_def not_le)
  qed
  have "2 powi l / 2 powi s = (2::rat) powi (l - s)"
    by (simp add: power_int_diff)
  then have ls: "2 powi l / 2 powi s = (2::rat) ^ 52"
    by (simp add: s_def)
  have "2 powi (l + 1) / 2 powi s = (2::rat) powi (l + 1 - s)"
    by (simp add: power_int_diff)
  then have ls1: "2 powi (l + 1) / 2 powi s = (2::rat) ^ 53"
    by (simp add: s_def)
  have ylo: "2 ^ 52 \<le> y"
    using lo divide_right_mono [of "2 powi l" A "2 powi s"] by (simp add: y_def ls)
  have yhi: "y < 2 ^ 53"
    using hi divide_strict_right_mono [of A "2 powi (l + 1)" "2 powi s"] by (simp add: y_def ls1)
  have my: "\<bar>of_nat m - y\<bar> \<le> 1 / 2"
  proof (cases "0 \<le> s")
    case True
    with scaled_ratio [OF b, of s a] have "of_nat a / of_nat (b * 2 ^ nat s) = A / 2 powi s"
      unfolding A_def by (simp only: if_True)
    then have "y = of_nat a / of_nat (b * 2 ^ nat s)"
      unfolding y_def by (rule sym)
    moreover have "0 < b * 2 ^ nat s" using b by simp
    ultimately show ?thesis
      using round_div_error [of "b * 2 ^ nat s" a] True by (simp add: m_def)
  next
    case False
    with scaled_ratio [OF b, of s a] have "of_nat (a * 2 ^ nat (- s)) / of_nat b = A / 2 powi s"
      unfolding A_def by (simp only: if_False)
    then have "y = of_nat (a * 2 ^ nat (- s)) / of_nat b"
      unfolding y_def by (rule sym)
    then show ?thesis
      using round_div_error [OF b, of "a * 2 ^ nat (- s)"] False by (simp add: m_def)
  qed
  have e: "(2::rat) powi (s + k) = 2 powi s * 2 powi k"
    by (rule power_int_add) simp
  have "y * 2 powi (s + k) = A / 2 powi s * (2 powi s * 2 powi k)"
    by (simp only: y_def e)
  also have "\<dots> = A * 2 powi k"
    by simp
  finally have T: "of_nat a / of_nat b * 2 powi k = y * 2 powi (s + k)"
    by (simp only: A_def)
  have "dval (nearest_double a b k) - of_nat a / of_nat b * 2 powi k =
      (of_nat m - y) * 2 powi (s + k)"
    by (simp only: nd dval_def fst_conv snd_conv T left_diff_distrib)
  then have "\<bar>dval (nearest_double a b k) - of_nat a / of_nat b * 2 powi k\<bar> =
      \<bar>of_nat m - y\<bar> * 2 powi (s + k)"
    by (simp add: abs_mult)
  also have "\<dots> \<le> 1 / 2 * 2 powi (s + k)"
    using my by (intro mult_right_mono) simp_all
  also have "\<dots> = 2 ^ 52 * 2 powi (s + k) / 2 ^ 53"
    by simp
  also have "\<dots> \<le> y * 2 powi (s + k) / 2 ^ 53"
    using ylo by (intro divide_right_mono mult_right_mono) simp_all
  finally show "\<bar>dval (nearest_double a b k) - of_nat a / of_nat b * 2 powi k\<bar>
           \<le> of_nat a / of_nat b * 2 powi k / 2 ^ 53"
    by (simp only: T)
  have "(0::rat) < 2 ^ 52 - 1 / 2" by simp
  also have "\<dots> \<le> y - 1 / 2" using ylo by simp
  also have "\<dots> \<le> of_nat m" using my by linarith
  finally have "0 < m" by simp
  then show "0 < fst (nearest_double a b k)" by (simp add: nd)
qed


lemma fixed_tenths_floor: "int (fixed_tenths x) = \<lfloor>10 * dval x + 1 / 2\<rfloor>"
proof (cases "0 \<le> snd x")
  case True
  then have "10 * dval x = of_int (int (10 * fst x * 2 ^ nat (snd x)))"
    by (simp add: dval_def power_int_def)
  then have "\<lfloor>10 * dval x + 1 / 2\<rfloor> = int (10 * fst x * 2 ^ nat (snd x))"
    by (simp only: floor_unique [of "int (10 * fst x * 2 ^ nat (snd x))" "10 * dval x + 1 / 2"])
       linarith
  with True show ?thesis by (simp add: fixed_tenths_def)
next
  case False
  define p :: nat where "p = 2 ^ nat (- snd x)"
  have p: "0 < p" by (simp add: p_def)
  from False have "nat (1 - snd x) = Suc (nat (- snd x))" by simp
  then have pp: "(2::nat) ^ nat (1 - snd x) = 2 * p" by (simp add: p_def)
  have "(2::rat) powi snd x = 1 / of_nat p"
    using False by (simp add: power_int_def p_def power_one_over)
  then have "10 * dval x + 1 / 2 = (of_nat (20 * fst x + p) :: rat) / of_nat (2 * p)"
    using p by (simp add: dval_def field_simps)
  then have "\<lfloor>10 * dval x + 1 / 2\<rfloor> = int ((20 * fst x + p) div (2 * p))"
    by (simp only: floor_divide_of_nat_eq)
  with False show ?thesis by (simp add: fixed_tenths_def pp p_def)
qed

lemma tie_gap:
  fixes z :: rat and c t :: nat
  assumes t: "0 < t"
    and close: "\<bar>z - 1000 * of_nat c / of_nat t\<bar> < 1 / (2 * of_nat t)"
  shows "\<bar>(of_int \<lfloor>z + 1 / 2\<rfloor> :: rat) - 1000 * of_nat c / of_nat t\<bar> \<le> 1 / 2"
proof -
  define n where "n = \<lfloor>z + 1 / 2\<rfloor>"
  define Y :: rat where "Y = 1000 * of_nat c / of_nat t"
  have tpos: "(0::rat) < of_nat t" using t by simp
  have n1: "of_int n \<le> z + 1 / 2" and n2: "z + 1 / 2 < of_int n + 1"
    using floor_correct [of "z + 1 / 2"] by (simp_all add: n_def)
  have Yt: "Y * (2 * of_nat t) = of_int (2000 * int c)"
    using tpos by (simp add: Y_def)
  have e1: "(of_int n + 1 / 2) * (2 * of_nat t) = (of_int ((2 * n + 1) * int t) :: rat)"
    by (simp add: algebra_simps)
  have e2: "(of_int n - 1 / 2) * (2 * of_nat t) = (of_int ((2 * n - 1) * int t) :: rat)"
    by (simp add: algebra_simps)
  have upper: "Y \<le> of_int n + 1 / 2"
  proof (rule ccontr)
    assume "\<not> Y \<le> of_int n + 1 / 2"
    then have "(of_int n + 1 / 2) * (2 * of_nat t) < Y * (2 * of_nat t)"
      using tpos by simp
    then have "(of_int ((2 * n + 1) * int t) :: rat) < of_int (2000 * int c)"
      unfolding e1 Yt .
    then have "(2 * n + 1) * int t < 2000 * int c"
      by (simp only: of_int_less_iff)
    then have "(2 * n + 1) * int t + 1 \<le> 2000 * int c" by simp
    then have "(of_int ((2 * n + 1) * int t + 1) :: rat) \<le> of_int (2000 * int c)"
      by (simp only: of_int_le_iff)
    then have "(of_int ((2 * n + 1) * int t) :: rat) + 1 \<le> of_int (2000 * int c)"
      by simp
    then have "(of_int n + 1 / 2) * (2 * of_nat t) + 1 \<le> Y * (2 * of_nat t)"
      unfolding e1 Yt .
    then have "of_int n + 1 / 2 + 1 / (2 * of_nat t) \<le> Y"
      using tpos by (simp add: field_simps)
    with n2 have "1 / (2 * of_nat t) < Y - z" by linarith
    with close show False unfolding Y_def by linarith
  qed
  have lower: "of_int n - 1 / 2 \<le> Y"
  proof (rule ccontr)
    assume "\<not> of_int n - 1 / 2 \<le> Y"
    then have "Y * (2 * of_nat t) < (of_int n - 1 / 2) * (2 * of_nat t)"
      using tpos by simp
    then have "(of_int (2000 * int c) :: rat) < of_int ((2 * n - 1) * int t)"
      unfolding e2 Yt .
    then have "2000 * int c < (2 * n - 1) * int t"
      by (simp only: of_int_less_iff)
    then have "2000 * int c + 1 \<le> (2 * n - 1) * int t" by simp
    then have "(of_int (2000 * int c + 1) :: rat) \<le> of_int ((2 * n - 1) * int t)"
      by (simp only: of_int_le_iff)
    then have "(of_int (2000 * int c) :: rat) + 1 \<le> of_int ((2 * n - 1) * int t)"
      by simp
    then have "Y * (2 * of_nat t) + 1 \<le> (of_int n - 1 / 2) * (2 * of_nat t)"
      unfolding e2 Yt .
    then have "Y + 1 / (2 * of_nat t) \<le> of_int n - 1 / 2"
      using tpos by (simp add: field_simps)
    with n1 have "1 / (2 * of_nat t) \<le> z - Y" by linarith
    with close show False unfolding Y_def by linarith
  qed
  from upper lower show ?thesis
    unfolding n_def Y_def by linarith
qed



subsection \<open>The rate of the dashboard\<close>

lemma rate_error:
  assumes c: "0 < c" and t: "0 < t"
  defines "u \<equiv> (1::rat) / 2 ^ 53"
  shows "\<bar>10 * dval (fmul (fdiv c t) 100) - 1000 * of_nat c / of_nat t\<bar>
           \<le> 1000 * (of_nat c / of_nat t) * u * (2 + u)"
proof -
  define Q :: rat where "Q = of_nat c / of_nat t"
  define x where "x = nearest_double c t 0"
  define X where "X = dval x"
  define Y where "Y = dval (nearest_double (fst x * 100) 1 (snd x))"
  have Qpos: "0 < Q" using c t by (simp add: Q_def)
  have upos: "0 < u" by (simp add: u_def)
  have x1: "\<bar>X - Q\<bar> \<le> Q * u" and x2: "0 < fst x"
    using nearest_double_error [OF c t, of 0] by (simp_all add: X_def x_def Q_def u_def)
  have fm: "fmul (fdiv c t) 100 = nearest_double (fst x * 100) 1 (snd x)"
    using c x2 by (simp add: fmul_def fdiv_def x_def)
  have "0 < fst x * 100" using x2 by simp
  from nearest_double_error(1) [OF this, of 1 "snd x"]
  have y1: "\<bar>Y - 100 * X\<bar> \<le> 100 * X * u"
    by (simp add: Y_def X_def dval_def u_def mult.commute mult.left_commute)
  have Xle: "X \<le> Q + Q * u" using x1 by linarith
  have "100 * X * u \<le> 100 * (Q + Q * u) * u"
    using Xle upos by (intro mult_right_mono mult_left_mono) simp_all
  with y1 have y2: "\<bar>Y - 100 * X\<bar> \<le> 100 * (Q + Q * u) * u" by linarith
  have "\<bar>10 * Y - 1000 * Q\<bar> = \<bar>10 * (Y - 100 * X) + 1000 * (X - Q)\<bar>"
    by (simp add: algebra_simps)
  also have "\<dots> \<le> \<bar>10 * (Y - 100 * X)\<bar> + \<bar>1000 * (X - Q)\<bar>"
    by (rule abs_triangle_ineq)
  also have "\<dots> = 10 * \<bar>Y - 100 * X\<bar> + 1000 * \<bar>X - Q\<bar>"
    by (simp only: abs_mult abs_numeral)
  also have "\<dots> \<le> 10 * (100 * (Q + Q * u) * u) + 1000 * (Q * u)"
    using y2 x1 by (intro add_mono mult_left_mono) simp_all
  also have "\<dots> = 1000 * Q * u * (2 + u)"
    by (simp add: algebra_simps)
  finally show ?thesis
    by (simp only: fm Y_def Q_def times_divide_eq_right)
qed

text \<open>
  With fewer than \<open>2^41\<close> completed tasks the two roundings cannot carry the
  product across the middle between two tenths.
\<close>

lemma rate_nearest_tenth:
  assumes t: "0 < t" and c: "c < 2 ^ 41"
  shows "\<bar>(of_nat (fixed_tenths (fmul (fdiv c t) 100)) :: rat) - 1000 * of_nat c / of_nat t\<bar>
           \<le> 1 / 2"
proof (cases "c = 0")
  case True
  then show ?thesis
    by (simp add: fdiv_def fmul_def fixed_tenths_def)
next
  case False
  then have cpos: "0 < c" by simp
  define u :: rat where "u = 1 / 2 ^ 53"
  define z where "z = 10 * dval (fmul (fdiv c t) 100)"
  have tpos: "(0::rat) < of_nat t" using t by simp
  have "(of_nat c :: rat) \<le> of_nat (2 ^ 41)"
    using c by (simp only: of_nat_le_iff)
  then have cle: "(of_nat c :: rat) \<le> 2 ^ 41" by simp
  have "1000 * (of_nat c / of_nat t) * u * (2 + u) =
      (2000 * u * (2 + u)) * of_nat c * (1 / (2 * of_nat t))"
    by simp
  also have "\<dots> \<le> (2000 * u * (2 + u)) * 2 ^ 41 * (1 / (2 * of_nat t))"
    using cle tpos by (intro mult_right_mono mult_left_mono) (simp_all add: u_def)
  also have "\<dots> < 1 * (1 / (2 * of_nat t))"
    using tpos by (intro mult_strict_right_mono) (simp_all add: u_def)
  finally have "1000 * (of_nat c / of_nat t) * u * (2 + u) < 1 / (2 * of_nat t)"
    by simp
  with rate_error [OF cpos t]
  have "\<bar>z - 1000 * of_nat c / of_nat t\<bar> < 1 / (2 * of_nat t)"
    unfolding z_def u_def by linarith
  from tie_gap [OF t this]
  have "\<bar>(of_int \<lfloor>z + 1 / 2\<rfloor> :: rat) - 1000 * of_nat c / of_nat t\<bar> \<le> 1 / 2" .
  moreover have "(of_int \<lfloor>z + 1 / 2\<rfloor> :: rat) = of_nat (fixed_tenths (fmul (fdiv c t) 100))"
    using fixed_tenths_floor [of "fmul (fdiv c t) 100"]
    by (simp add: z_def)
  ultimately show ?thesis by simp
qed

lemma dashboard_completion_rate:
  "field ''completionRate'' (summary (fst (dashboard req st))) =
     Some (completion_rate (length (filter (\<lambda>t. status t = ''completed'') (tasks st)))
             (length (tasks st)))"
  by (simp add: dashboard_def Let_def respond_def summary_def field_def)

lemmas double_defs =
  completion_rate_def toFixed1_def one_decimal_def fixed_tenths_def fmul_def fdiv_def
  nearest_double_def round_div_def bits.simps show_nat.simps Let_def

lemma store_with_counts:
  "c \<le> n \<Longrightarrow> length (tasks (store_with c n)) = n"
  "length (filter (\<lambda>t. status t = ''completed'') (tasks (store_with c n))) = c"
  by (simp_all add: store_with_def tasks_only_def sample_task_def)

text \<open>
  C4, as amended. With no task the summary's \<open>completionRate\<close> is the number 0. With
  tasks, fewer than \<open>2^41\<close> of them completed, it is the string, with one digit after
  the point, of a number of tenths that is nearest to \<open>completed / total * 100\<close>:
  nearest, and either neighbour when the rate lies halfway between two tenths.
\<close>

theorem completion_rate_nearest:
  "(tasks st = [] \<longrightarrow>
      field ''completionRate'' (summary (fst (dashboard req st))) = Some (JNum 0)) \<and>
   (tasks st \<noteq> [] \<and> length (filter (\<lambda>t. status t = ''completed'') (tasks st)) < 2 ^ 41 \<longrightarrow>
      (\<exists>n. field ''completionRate'' (summary (fst (dashboard req st))) =
              Some (JStr (one_decimal n)) \<and>
           \<bar>(of_nat n :: rat) / 10 -
             of_nat (length (filter (\<lambda>t. status t = ''completed'') (tasks st))) /
               of_nat (length (tasks st)) * 100\<bar> \<le> 1 / 20))"
proof (intro conjI impI)
  assume "tasks st = []"
  then show "field ''completionRate'' (summary (fst (dashboard req st))) = Some (JNum 0)"
    by (simp add: dashboard_completion_rate completion_rate_def)
next
  let ?c = "length (filter (\<lambda>t. status t = ''completed'') (tasks st))"
  let ?t = "length (tasks st)"
  let ?n = "fixed_tenths (fmul (fdiv ?c ?t) 100)"
  assume a: "tasks st \<noteq> [] \<and> ?c < 2 ^ 41"
  then have t: "0 < ?t" by simp
  from rate_nearest_tenth [OF t] a
  have "\<bar>(of_nat ?n :: rat) - 1000 * of_nat ?c / of_nat ?t\<bar> \<le> 1 / 2" by simp
  then have "\<bar>(of_nat ?n :: rat) / 10 - of_nat ?c / of_nat ?t * 100\<bar> \<le> 1 / 20"
    by (simp add: abs_le_iff field_simps)
  moreover have "field ''completionRate'' (summary (fst (dashboard req st))) =
      Some (JStr (one_decimal ?n))"
    using t by (simp add: dashboard_completion_rate completion_rate_def toFixed1_def)
  ultimately show "\<exists>n. field ''completionRate'' (summary (fst (dashboard req st))) =
              Some (JStr (one_decimal n)) \<and>
           \<bar>(of_nat n :: rat) / 10 - of_nat ?c / of_nat ?t * 100\<bar> \<le> 1 / 20"
    by blast
qed

lemma rate_two_of_three: "completion_rate 2 3 = JStr ''66.7''"
  by (simp add: double_defs)

lemma counts_three_tasks:
  "length (filter (\<lambda>t. status t = ''completed'') (tasks three_tasks)) = 2"
  "length (tasks three_tasks) = 3"
  by (simp_all add: three_tasks_def tasks_only_def sample_task_def)

theorem completion_rate_nearest_witness:
  "field ''completionRate'' (summary (fst (dashboard (anonymous ()) empty_store))) = Some (JNum 0) \<and>
   field ''completionRate'' (summary (fst (dashboard (anonymous ()) three_tasks))) =
     Some (JStr ''66.7'') \<and>
   (\<exists>n. field ''completionRate'' (summary (fst (dashboard (anonymous ()) three_tasks))) =
           Some (JStr (one_decimal n)) \<and>
        \<bar>(of_nat n :: rat) / 10 - 2 / 3 * 100\<bar> \<le> 1 / 20)"
proof -
  from completion_rate_nearest [where st = empty_store and req = "anonymous ()"]
  have "field ''completionRate'' (summary (fst (dashboard (anonymous ()) empty_store))) =
      Some (JNum 0)"
    by (simp add: empty_store_def)
  moreover have "field ''completionRate'' (summary (fst (dashboard (anonymous ()) three_tasks))) =
      Some (JStr ''66.7'')"
    by (simp add: dashboard_completion_rate counts_three_tasks rate_two_of_three)
  moreover from completion_rate_nearest [where st = three_tasks and req = "anonymous ()"]
  have "\<exists>n. field ''completionRate'' (summary (fst (dashboard (anonymous ()) three_tasks))) =
           Some (JStr (one_decimal n)) \<and>
        \<bar>(of_nat n :: rat) / 10 - 2 / 3 * 100\<bar> \<le> 1 / 20"
    using counts_three_tasks by (simp add: length_greater_0_conv [symmetric] del: length_greater_0_conv)
  ultimately show ?thesis by blast
qed

text \<open>
  C4, as stated, fails: with 3 of 2000 tasks completed the rate is 0.15 and the summary
  says \<open>0.1\<close>, since the double nearest to 0.15 lies below it; and with
  4302083895472 of 12000234018053 tasks completed the rate is below 35.85 and the summary
  says \<open>35.9\<close>, more than half a tenth away, since the two roundings carry the product
  above 35.85.
\<close>

theorem completion_rate_not_rounded:
  "field ''completionRate'' (summary (fst (dashboard (anonymous ()) (store_with 3 2000)))) =
     Some (JStr ''0.1'') \<and>
   spec_completion_rate 3 2000 = JStr ''0.2'' \<and>
   field ''completionRate''
      (summary (fst (dashboard (anonymous ()) (store_with 4302083895472 12000234018053)))) =
     Some (JStr ''35.9'') \<and>
   spec_completion_rate 4302083895472 12000234018053 = JStr ''35.8'' \<and>
   1 / 20 < \<bar>(359 :: rat) / 10 - 4302083895472 / 12000234018053 * 100\<bar>"
proof -
  have "completion_rate 3 2000 = JStr ''0.1''"
    by (simp add: double_defs)
  moreover have "completion_rate 4302083895472 12000234018053 = JStr ''35.9''"
    by (simp add: double_defs)
  moreover have "spec_completion_rate 3 2000 = JStr ''0.2''"
  proof -
    have "round ((of_nat 3 :: rat) / of_nat 2000 * 100 * 10) = 2"
      unfolding round_def by (rule floor_unique) simp_all
    then have "spec_completion_rate 3 2000 = JStr (one_decimal (nat 2))"
      unfolding spec_completion_rate_def by simp
    then show ?thesis by (simp add: one_decimal_def show_nat.simps)
  qed
  moreover have "spec_completion_rate 4302083895472 12000234018053 = JStr ''35.8''"
  proof -
    have "round ((of_nat 4302083895472 :: rat) / of_nat 12000234018053 * 100 * 10) = 358"
      unfolding round_def by (rule floor_unique) simp_all
    then have "spec_completion_rate 4302083895472 12000234018053 = JStr (one_decimal (nat 358))"
      unfolding spec_completion_rate_def by simp
    then show ?thesis by (simp add: one_decimal_def show_nat.simps)
  qed
  moreover have "1 / 20 < \<bar>(359 :: rat) / 10 - 4302083895472 / 12000234018053 * 100\<bar>"
    by simp
  ultimately show ?thesis
    by (simp add: dashboard_completion_rate store_with_counts)
qed

end
